theory Spec2Isabelle
  imports Main "HOL-Library.AList"
begin

section \<open>JavaScript values, objects and raised errors\<close>

text \<open>
  The handlers of this repository pass JSON-shaped values between CloudFormation, the
  Stripe client and the AWS clients. A value is modelled by \<open>jsval\<close>; an object is an
  association list from property names to values. Reading a property that an object does
  not have yields \<open>Undefined\<close>, as in JavaScript.
\<close>

datatype jsval =
    Undefined
  | Null
  | Bool bool
  | Num int
  | Str string
  | Arr "jsval list"
  | Obj "(string \<times> jsval) list"

type_synonym obj = "(string \<times> jsval) list"

text \<open>The truthiness test used by \<open>if (x)\<close>, \<open>!x\<close> and \<open>a && b\<close>.\<close>

fun truthy :: "jsval \<Rightarrow> bool" where
  "truthy Undefined = False"
| "truthy Null = False"
| "truthy (Bool b) = b"
| "truthy (Num n) = (n \<noteq> 0)"
| "truthy (Str s) = (s \<noteq> [])"
| "truthy (Arr xs) = True"
| "truthy (Obj ps) = True"

text \<open>\<open>o.k\<close>: the value of property \<open>k\<close>, \<open>Undefined\<close> when \<open>o\<close> has no such property.\<close>

definition get_prop :: "obj \<Rightarrow> string \<Rightarrow> jsval" where
  "get_prop ob k = (case map_of ob k of None \<Rightarrow> Undefined | Some v \<Rightarrow> v)"

text \<open>\<open>delete o.k\<close>: the object without property \<open>k\<close>.\<close>

definition delete_prop :: "string \<Rightarrow> obj \<Rightarrow> obj" where
  "delete_prop k ob = AList.delete k ob"

text \<open>\<open>{ ...o }\<close>: a fresh object with the own properties of \<open>o\<close>.\<close>

definition spread :: "obj \<Rightarrow> obj" where
  "spread ob = ob"

text \<open>
  A raised JavaScript error. \<open>name\<close> and \<open>message\<close> are the fields of every \<open>Error\<close>;
  \<open>etype\<close> is the \<open>type\<close> field that the errors of the Stripe client carry (it is
  absent, \<open>None\<close>, on a plain \<open>Error\<close> and on the errors of the AWS clients).
  A function that may throw, or an awaited promise that may reject, returns
  \<open>error + 'a\<close> with \<open>Inl\<close> for the raised error.
\<close>

datatype error = Error (name: string) (etype: "string option") (message: string)

text \<open>\<open>new Error(msg)\<close>\<close>

definition new_Error :: "string \<Rightarrow> error" where
  "new_Error msg = Error ''Error'' None msg"

section \<open>External services\<close>

text \<open>
  Objects of the client libraries. A constructor call only stores its arguments; the
  calls that reach a remote service are the fields of \<open>env\<close> below.
\<close>

record SecretKeyOptions =
  maxAttempts :: nat

datatype SecretKey = SecretKey jsval SecretKeyOptions

datatype SecretKeyStore = SecretKeyStore jsval SecretKeyOptions

record StripeConfig =
  apiVersion :: string
  telemetry :: "bool option"
  typescript :: "bool option"

datatype Stripe = Stripe string StripeConfig

record WebhookEndpointParams =
  url :: jsval
  description :: jsval
  enabled_events :: jsval

record RequestOptions =
  maxNetworkRetries :: nat

record PutEventsRequestEntry =
  Detail :: string
  DetailType :: jsval
  EventBusName :: string
  Resources :: "string list"
  Source :: "string option"

record PutEventsCommandInput =
  Entries :: "PutEventsRequestEntry list"

text \<open>
  A \<open>Buffer\<close> is its bytes; a zip archive is its entries (name and content).
\<close>

type_synonym Buffer = string

type_synonym Zip = "(string \<times> Buffer) list"

record LambdaClient =
  region :: jsval

datatype LambdaCommand =
    GetFunctionCommand jsval
  | UpdateFunctionCodeCommand jsval Buffer bool

record WaiterConfiguration =
  client :: LambdaClient
  maxWaitTime :: nat

text \<open>
  The calls a handler issues to the outside, in the order it issues them. A handler
  returns this trace beside its result, so that a statement can say which calls were
  made, with which arguments, and which were not.
\<close>

datatype call =
    GetValue SecretKey
  | PutSecret SecretKeyStore jsval
  | WebhookEndpointsCreate Stripe WebhookEndpointParams RequestOptions
  | WebhookEndpointsUpdate Stripe string WebhookEndpointParams RequestOptions
  | WebhookEndpointsDel Stripe string jsval RequestOptions
  | ConstructEvent Stripe string string string
  | Send PutEventsCommandInput

text \<open>
  The environment of one invocation: what each external call answers. The functions
  come from packages that are not part of the handlers (\<open>custom-resource-helper\<close>,
  \<open>@cloudcomponents/lambda-utils\<close>, \<open>stripe\<close>, \<open>get-env-or-die\<close>, the AWS SDK), so
  they are parameters; \<open>toString\<close> is the string conversion of a template literal
  \<open>`${v}`\<close>. \<open>waitUntilFunctionActiveV2\<close> gives the way the waiter's promise settles in
  the end: \<open>Inr\<close> when the function became active within \<open>maxWaitTime\<close>, \<open>Inl\<close>
  when the waiter timed out or faulted. An error raised by \<open>new SecretKey\<close> or \<open>new SecretKeyStore\<close>
  is taken as raised by the \<open>getValue\<close> or \<open>putSecret\<close> that follows it at once.
\<close>

record env =
  camelizeKeys :: "obj \<Rightarrow> obj"
  getValue :: "SecretKey \<Rightarrow> error + string"
  putSecret :: "SecretKeyStore \<Rightarrow> jsval \<Rightarrow> error + unit"
  webhookEndpoints_create ::
    "Stripe \<Rightarrow> WebhookEndpointParams \<Rightarrow> RequestOptions \<Rightarrow> error + obj"
  webhookEndpoints_update ::
    "Stripe \<Rightarrow> string \<Rightarrow> WebhookEndpointParams \<Rightarrow> RequestOptions \<Rightarrow> error + obj"
  webhookEndpoints_del :: "Stripe \<Rightarrow> string \<Rightarrow> jsval \<Rightarrow> RequestOptions \<Rightarrow> error + obj"
  webhooks_constructEvent :: "Stripe \<Rightarrow> string \<Rightarrow> string \<Rightarrow> string \<Rightarrow> error + obj"
  getEnv :: "string \<Rightarrow> string option \<Rightarrow> error + string"
  process_env :: "string \<Rightarrow> string option"
  JSON_stringify :: "obj \<Rightarrow> string"
  eventBridge_send :: "PutEventsCommandInput \<Rightarrow> error + unit"
  toString :: "jsval \<Rightarrow> string"
  lambda_send :: "LambdaClient \<Rightarrow> LambdaCommand \<Rightarrow> error + obj"
  axios_get :: "jsval \<Rightarrow> string \<Rightarrow> error + Buffer"
  Zip_new :: "Buffer option \<Rightarrow> error + Zip"
  mkdtempSync :: "string \<Rightarrow> error + string"
  extractAllTo :: "Zip \<Rightarrow> string \<Rightarrow> bool \<Rightarrow> error + unit"
  path_resolve :: "string \<Rightarrow> string \<Rightarrow> string"
  Buffer_from :: "jsval \<Rightarrow> error + Buffer"
  writeFileSync :: "string \<Rightarrow> Buffer \<Rightarrow> error + unit"
  addLocalFolder :: "Zip \<Rightarrow> string \<Rightarrow> error + Zip"
  toBuffer :: "Zip \<Rightarrow> error + Buffer"
  waitUntilFunctionActiveV2 :: "WaiterConfiguration \<Rightarrow> jsval \<Rightarrow> error + obj"

section \<open>The Stripe webhook custom resource (stripe-webhook/index.ts)\<close>

record CloudFormationCustomResourceEventCommon =
  ResourceProperties :: obj

record CloudFormationCustomResourceUpdateEvent = CloudFormationCustomResourceEventCommon +
  PhysicalResourceId :: string

record ResourceHandlerReturn =
  physicalResourceId :: jsval
  responseData :: obj

text \<open>
  \<open>handleCreate\<close>: resolve the API key, create the endpoint, and when both the store
  locator and the returned signing secret are truthy, put the secret into the store and
  delete it from the response. No \<open>try\<close> surrounds any call: an error raised by a call
  leaves the handler at once.
\<close>

definition handleCreate ::
  "env \<Rightarrow> CloudFormationCustomResourceEventCommon \<Rightarrow> (error + ResourceHandlerReturn) \<times> call list"
where
  "handleCreate e event =
    (let props = camelizeKeys e (ResourceProperties event);
         secretKeyString = get_prop props ''secretKeyString'';
         endpointSecretStoreString = get_prop props ''endpointSecretStoreString'';
         secretKey = SecretKey secretKeyString \<lparr>maxAttempts = 5\<rparr>
     in case getValue e secretKey of
          Inl err \<Rightarrow> (Inl err, [GetValue secretKey])
        | Inr val \<Rightarrow>
           (let stripe = Stripe val
                  \<lparr>apiVersion = ''2020-08-27'', telemetry = None, typescript = None\<rparr>;
                params = \<lparr>url = get_prop props ''url'',
                          description = get_prop props ''description'',
                          enabled_events = get_prop props ''events''\<rparr>;
                opts = \<lparr>maxNetworkRetries = 5\<rparr>;
                t = [GetValue secretKey, WebhookEndpointsCreate stripe params opts]
            in case webhookEndpoints_create e stripe params opts of
                 Inl err \<Rightarrow> (Inl err, t)
               | Inr data \<Rightarrow>
                  if truthy endpointSecretStoreString \<and> truthy (get_prop data ''secret'')
                  then
                    (let secretKeyStore =
                           SecretKeyStore endpointSecretStoreString \<lparr>maxAttempts = 5\<rparr>;
                         t' = t @ [PutSecret secretKeyStore (get_prop data ''secret'')]
                     in case putSecret e secretKeyStore (get_prop data ''secret'') of
                          Inl err \<Rightarrow> (Inl err, t')
                        | Inr _ \<Rightarrow>
                           (let data' = delete_prop ''secret'' data
                            in (Inr \<lparr>physicalResourceId = get_prop data' ''id'',
                                     responseData = spread data'\<rparr>, t')))
                  else (Inr \<lparr>physicalResourceId = get_prop data ''id'',
                              responseData = spread data\<rparr>, t)))"

definition handleUpdate ::
  "env \<Rightarrow> CloudFormationCustomResourceUpdateEvent \<Rightarrow> (error + ResourceHandlerReturn) \<times> call list"
where
  "handleUpdate e event =
    (let props = camelizeKeys e (ResourceProperties event);
         secretKeyString = get_prop props ''secretKeyString'';
         secretKey = SecretKey secretKeyString \<lparr>maxAttempts = 5\<rparr>
     in case getValue e secretKey of
          Inl err \<Rightarrow> (Inl err, [GetValue secretKey])
        | Inr val \<Rightarrow>
           (let webhookId = PhysicalResourceId event;
                stripe = Stripe val
                  \<lparr>apiVersion = ''2020-08-27'', telemetry = None, typescript = None\<rparr>;
                params = \<lparr>url = get_prop props ''url'',
                          description = get_prop props ''description'',
                          enabled_events = get_prop props ''events''\<rparr>;
                opts = \<lparr>maxNetworkRetries = 5\<rparr>;
                t = [GetValue secretKey, WebhookEndpointsUpdate stripe webhookId params opts]
            in case webhookEndpoints_update e stripe webhookId params opts of
                 Inl err \<Rightarrow> (Inl err, t)
               | Inr data \<Rightarrow>
                  (let physicalResourceId = get_prop data ''id''
                   in (Inr \<lparr>physicalResourceId = physicalResourceId,
                            responseData = spread data\<rparr>, t))))"

definition handleDelete ::
  "env \<Rightarrow> CloudFormationCustomResourceUpdateEvent \<Rightarrow> (error + unit) \<times> call list"
where
  "handleDelete e event =
    (let props = camelizeKeys e (ResourceProperties event);
         secretKeyString = get_prop props ''secretKeyString'';
         secretKey = SecretKey secretKeyString \<lparr>maxAttempts = 5\<rparr>
     in case getValue e secretKey of
          Inl err \<Rightarrow> (Inl err, [GetValue secretKey])
        | Inr val \<Rightarrow>
           (let webhookId = PhysicalResourceId event;
                stripe = Stripe val
                  \<lparr>apiVersion = ''2020-08-27'', telemetry = None, typescript = None\<rparr>;
                opts = \<lparr>maxNetworkRetries = 5\<rparr>;
                t = [GetValue secretKey, WebhookEndpointsDel stripe webhookId Undefined opts]
            in case webhookEndpoints_del e stripe webhookId Undefined opts of
                 Inl err \<Rightarrow> (Inl err, t)
               | Inr _ \<Rightarrow> (Inr (), t)))"

text \<open>
  The module exports \<open>handler = customResourceHelper(...)\<close> (lines 107 to 113), which
  wraps the three operations. \<open>customResourceHelper\<close> belongs to the package
  \<open>custom-resource-helper\<close>, whose code is not among the sources.
\<close>

datatype LifecycleRequest =
    Create CloudFormationCustomResourceEventCommon
  | Update CloudFormationCustomResourceUpdateEvent
  | Delete CloudFormationCustomResourceUpdateEvent

datatype LifecycleResult =
    Success (physicalId: jsval) (payload: obj)
  | Failed (failure_reason: string)

record ResourceHandler =
  onCreate ::
    "env \<Rightarrow> CloudFormationCustomResourceEventCommon
       \<Rightarrow> (error + ResourceHandlerReturn) \<times> call list"
  onUpdate ::
    "env \<Rightarrow> CloudFormationCustomResourceUpdateEvent
       \<Rightarrow> (error + ResourceHandlerReturn) \<times> call list"
  onDelete ::
    "env \<Rightarrow> CloudFormationCustomResourceUpdateEvent \<Rightarrow> (error + unit) \<times> call list"

text \<open>
  Modelled from the spec: \<open>customResourceHelper\<close>, the lifecycle framework of the
  package \<open>custom-resource-helper\<close>, is missing from the sources. The specification
  gives its contract: the lifecycle request is a tagged union Create, Update or Delete
  that is dispatched to the matching operation; the callback interface returns a status
  Success or Failed with a physical id, a reason and the response data; a
  non-recoverable error surfaces "as a failed lifecycle result with a human-readable
  reason string", and "the caller is never left without a terminal status". The reason
  is taken to be the message of the raised error. A delete has no payload; its success
  names the physical id of the request.
\<close>

definition customResourceHelper ::
  "ResourceHandler \<Rightarrow> env \<Rightarrow> LifecycleRequest \<Rightarrow> LifecycleResult \<times> call list"
where
  "customResourceHelper h e req =
    (case req of
       Create event \<Rightarrow>
         (case onCreate h e event of
            (Inr r, t) \<Rightarrow> (Success (physicalResourceId r) (responseData r), t)
          | (Inl err, t) \<Rightarrow> (Failed (message err), t))
     | Update event \<Rightarrow>
         (case onUpdate h e event of
            (Inr r, t) \<Rightarrow> (Success (physicalResourceId r) (responseData r), t)
          | (Inl err, t) \<Rightarrow> (Failed (message err), t))
     | Delete event \<Rightarrow>
         (case onDelete h e event of
            (Inr u, t) \<Rightarrow> (Success (Str (PhysicalResourceId event)) [], t)
          | (Inl err, t) \<Rightarrow> (Failed (message err), t)))"

text \<open>The exported \<open>handler\<close> of the webhook module (lines 107 to 113).\<close>

definition handler_webhook :: "env \<Rightarrow> LifecycleRequest \<Rightarrow> LifecycleResult \<times> call list" where
  "handler_webhook =
     customResourceHelper
       \<lparr>onCreate = handleCreate, onUpdate = handleUpdate, onDelete = handleDelete\<rparr>"

section \<open>The event-bus producer (stripe-event-bus-producer/index.ts)\<close>

record APIGatewayProxyEvent =
  headers :: "(string \<times> string) list"
  body :: "string option"

record APIGatewayProxyResult =
  statusCode :: nat
  body :: string

text \<open>
  The module creates its two \<open>SecretKey\<close> objects once, when it is loaded;
  \<open>getEnv\<close> without a default raises when the variable is not set.
\<close>

record producer_module =
  endpointSecretKey :: SecretKey
  apiSecretKey :: SecretKey

definition load_producer :: "env \<Rightarrow> error + producer_module" where
  "load_producer e =
    (case getEnv e ''ENDPOINT_SECRET_STRING'' None of
       Inl err \<Rightarrow> Inl err
     | Inr s1 \<Rightarrow>
        (case getEnv e ''SECRET_KEY_STRING'' None of
           Inl err \<Rightarrow> Inl err
         | Inr s2 \<Rightarrow>
            Inr \<lparr>endpointSecretKey = SecretKey (Str s1) \<lparr>maxAttempts = 5\<rparr>,
                 apiSecretKey = SecretKey (Str s2) \<lparr>maxAttempts = 5\<rparr>\<rparr>))"

text \<open>The body of the \<open>try\<close> block: \<open>Inl\<close> is the error that reaches \<open>catch\<close>.\<close>

definition handler_try ::
  "env \<Rightarrow> producer_module \<Rightarrow> APIGatewayProxyEvent \<Rightarrow> (error + APIGatewayProxyResult) \<times> call list"
where
  "handler_try e m event =
    (case getValue e (apiSecretKey m) of
       Inl err \<Rightarrow> (Inl err, [GetValue (apiSecretKey m)])
     | Inr apiKey \<Rightarrow>
        (let stripe = Stripe apiKey
               \<lparr>apiVersion = ''2020-08-27'', telemetry = Some False, typescript = Some True\<rparr>;
             t1 = [GetValue (apiSecretKey m)]
         in case map_of (headers event) ''Stripe-Signature'' of
              None \<Rightarrow> (Inl (new_Error ''Stripe signature is missing''), t1)
            | Some signature \<Rightarrow>
               if signature = [] then (Inl (new_Error ''Stripe signature is missing''), t1)
               else
                 (let t2 = t1 @ [GetValue (endpointSecretKey m)]
                  in case getValue e (endpointSecretKey m) of
                       Inl err \<Rightarrow> (Inl err, t2)
                     | Inr endpointSecret \<Rightarrow>
                        (case APIGatewayProxyEvent.body event of
                           None \<Rightarrow> (Inl (new_Error ''event body undefined or null''), t2)
                         | Some b \<Rightarrow>
                            if b = [] then (Inl (new_Error ''event body undefined or null''), t2)
                            else
                              (let t3 = t2 @ [ConstructEvent stripe b signature endpointSecret]
                               in case webhooks_constructEvent e stripe b signature endpointSecret of
                                    Inl err \<Rightarrow> (Inl err, t3)
                                  | Inr eventReceived \<Rightarrow>
                                     (let type = get_prop eventReceived ''type'';
                                          details = delete_prop ''type'' eventReceived
                                      in case getEnv e ''EVENT_BUS_NAME'' (Some ''default'') of
                                           Inl err \<Rightarrow> (Inl err, t3)
                                         | Inr busName \<Rightarrow>
                                            (let params = \<lparr>Entries =
                                                   [\<lparr>Detail = JSON_stringify e details,
                                                     DetailType = type,
                                                     EventBusName = busName,
                                                     Resources = [],
                                                     Source = process_env e ''SOURCE''\<rparr>]\<rparr>;
                                                 t4 = t3 @ [Send params]
                                             in case eventBridge_send e params of
                                                  Inl err \<Rightarrow> (Inl err, t4)
                                                | Inr _ \<Rightarrow>
                                                   (Inr \<lparr>statusCode = 200, body = ''Success''\<rparr>,
                                                    t4))))))))"

text \<open>The handler: the \<open>try\<close> block and its \<open>catch\<close>.\<close>

definition handler ::
  "env \<Rightarrow> producer_module \<Rightarrow> APIGatewayProxyEvent \<Rightarrow> APIGatewayProxyResult \<times> call list"
where
  "handler e m event =
    (case handler_try e m event of
       (Inr result, t) \<Rightarrow> (result, t)
     | (Inl err, t) \<Rightarrow>
        (if etype err = Some ''StripeSignatureVerificationError''
         then \<lparr>statusCode = 400, body = ''Webhook Error: '' @ message err\<rparr>
         else \<lparr>statusCode = 500, body = ''Error: '' @ message err\<rparr>, t))"

text \<open>
  The events that reached the bus: the \<open>Send\<close> calls of a trace that the event bus
  answered without an error.
\<close>

definition published :: "env \<Rightarrow> call list \<Rightarrow> PutEventsCommandInput list" where
  "published e t =
     concat (map (\<lambda>c. case c of
                        Send p \<Rightarrow> (case eventBridge_send e p of Inl _ \<Rightarrow> [] | Inr _ \<Rightarrow> [p])
                      | _ \<Rightarrow> []) t)"

section \<open>Configuration injection into a Lambda function (with-configuration/index.ts)\<close>

text \<open>Sequencing of calls that may raise: the first error ends the function.\<close>

definition andThen :: "error + 'a \<Rightarrow> ('a \<Rightarrow> error + 'b) \<Rightarrow> error + 'b" where
  "andThen m f = (case m of Inl err \<Rightarrow> Inl err | Inr v \<Rightarrow> f v)"

text \<open>\<open>v?.k\<close>\<close>

fun optional_prop :: "jsval \<Rightarrow> string \<Rightarrow> jsval" where
  "optional_prop (Obj ps) k = get_prop ps k"
| "optional_prop v k = Undefined"

text \<open>\<open>`${err}`\<close> for an error: \<open>Error.prototype.toString\<close>.\<close>

definition error_toString :: "error \<Rightarrow> string" where
  "error_toString err =
     (if name err = [] then message err
      else if message err = [] then name err
      else name err @ '': '' @ message err)"

record ResponseDetails = ResourceHandlerReturn +
  responseStatus :: string
  reason :: string

text \<open>
  The activation of \<open>updateLambdaCode\<close> from line 77 on. \<open>responseDetails\<close> is the
  \<open>let\<close> variable, which the two callbacks capture; \<open>reactions\<close> are the callbacks
  registered on a promise and not yet run. JavaScript runs a promise callback as a job
  of its own, after the code that registered it has run to its end, so a callback is
  queued here and run by \<open>run_reactions\<close>.
\<close>

record activation =
  responseDetails :: ResponseDetails
  reactions :: "(ResponseDetails \<Rightarrow> ResponseDetails) list"

text \<open>The callback of \<open>.then\<close> (lines 91 to 106): it assigns the variable.\<close>

definition onFulfilled ::
  "env \<Rightarrow> jsval \<Rightarrow> jsval \<Rightarrow> jsval \<Rightarrow> jsval \<Rightarrow> obj \<Rightarrow> ResponseDetails \<Rightarrow> ResponseDetails"
where
  "onFulfilled e functionName codeSha256 version functionArn result rd =
     \<lparr>physicalResourceId = functionName,
      responseData = [(''CodeSha256'', codeSha256), (''Version'', version),
                      (''FunctionArn'', functionArn)],
      responseStatus = ''SUCCESS'',
      reason = ''Lambda function '' @ toString e functionName @ '' is active.''\<rparr>"

text \<open>The callback of \<open>.catch\<close> (lines 107 to 115).\<close>

definition onRejected :: "env \<Rightarrow> jsval \<Rightarrow> error \<Rightarrow> ResponseDetails \<Rightarrow> ResponseDetails" where
  "onRejected e functionName err rd =
     \<lparr>physicalResourceId = functionName,
      responseData = [],
      responseStatus = ''FAILED'',
      reason = ''Encountered error while waiting for '' @ toString e functionName
                 @ '' to go active: '' @ error_toString err\<rparr>"

text \<open>
  The result of one call: the value the function returns, and its activation at that
  moment, with the callbacks still to run.
\<close>

record outcome =
  returned :: ResponseDetails
  pending :: activation

definition updateLambdaCode ::
  "env \<Rightarrow> 'a CloudFormationCustomResourceEventCommon_scheme \<Rightarrow> error + outcome"
where
  "updateLambdaCode e event =
    (let props = camelizeKeys e (ResourceProperties event);
         region = get_prop props ''region'';
         functionName = get_prop props ''functionName'';
         configuration = get_prop props ''configuration'';
         lambda = \<lparr>region = region\<rparr>
     in
     andThen (lambda_send e lambda (GetFunctionCommand functionName)) (\<lambda>response.
     let code = get_prop response ''Code'' in
     if \<not> truthy (optional_prop code ''Location'')
     then Inl (new_Error (''The code of the lambda function '' @ toString e functionName
                           @ '' could not be downloaded.''))
     else
     andThen (axios_get e (optional_prop code ''Location'') ''arraybuffer'') (\<lambda>data.
     andThen (Zip_new e (Some data)) (\<lambda>lambdaZip.
     andThen (mkdtempSync e ''/tmp/lambda-package'') (\<lambda>tempDir.
     andThen (extractAllTo e lambdaZip tempDir True) (\<lambda>_.
     andThen (Buffer_from e configuration) (\<lambda>buf.
     andThen (writeFileSync e (path_resolve e tempDir ''configuration.json'') buf) (\<lambda>_.
     andThen (Zip_new e None) (\<lambda>newLambdaZip.
     andThen (addLocalFolder e newLambdaZip tempDir) (\<lambda>newLambdaZip'.
     andThen (toBuffer e newLambdaZip') (\<lambda>zipFile.
     andThen (lambda_send e lambda (UpdateFunctionCodeCommand functionName zipFile True))
       (\<lambda>updated.
     let codeSha256 = get_prop updated ''CodeSha256'';
         version = get_prop updated ''Version'';
         functionArn = get_prop updated ''FunctionArn'';
         a0 = \<lparr>responseDetails =
                 \<lparr>physicalResourceId = functionName,
                  responseData = [],
                  responseStatus = ''FAILED'',
                  reason = ''Internal Error''\<rparr>,
               reactions = []\<rparr>;
         settle = (\<lambda>rd.
           case waitUntilFunctionActiveV2 e \<lparr>client = lambda, maxWaitTime = 60\<rparr> functionName of
             Inr result \<Rightarrow> onFulfilled e functionName codeSha256 version functionArn result rd
           | Inl err \<Rightarrow> onRejected e functionName err rd);
         a1 = a0\<lparr>reactions := reactions a0 @ [settle]\<rparr>
     in Inr \<lparr>returned = responseDetails a1, pending = a1\<rparr>))))))))))))"

text \<open>
  The event loop after the return: each queued callback runs and assigns the variable.
\<close>

definition run_reactions :: "activation \<Rightarrow> activation" where
  "run_reactions a =
     \<lparr>responseDetails = foldl (\<lambda>rd f. f rd) (responseDetails a) (reactions a),
      reactions = []\<rparr>"

text \<open>\<open>onCreate\<close> and \<open>onUpdate\<close> of this module: what the lifecycle framework receives.\<close>

definition handleCreate_withConfiguration ::
  "env \<Rightarrow> CloudFormationCustomResourceEventCommon \<Rightarrow> error + ResponseDetails"
where
  "handleCreate_withConfiguration e event =
     (case updateLambdaCode e event of Inl err \<Rightarrow> Inl err | Inr out \<Rightarrow> Inr (returned out))"

definition handleUpdate_withConfiguration ::
  "env \<Rightarrow> CloudFormationCustomResourceUpdateEvent \<Rightarrow> error + ResponseDetails"
where
  "handleUpdate_withConfiguration e event =
     (case updateLambdaCode e event of Inl err \<Rightarrow> Inl err | Inr out \<Rightarrow> Inr (returned out))"

section \<open>An example environment\<close>

text \<open>
  A small concrete world to run the handlers in: a Stripe account that holds the
  webhook endpoints \<open>existing\<close> and answers a request for any other id with its
  "No such webhook endpoint" error, a secret store with two secrets, an event bus that
  accepts every event, and a Lambda function whose code can be fetched and updated.
  \<open>waiter\<close> is the way the wait for the active state ends.
\<close>

definition no_such_webhook :: "string \<Rightarrow> error" where
  "no_such_webhook i =
     Error ''Error'' (Some ''StripeInvalidRequestError'') (''No such webhook endpoint: '' @ i)"

definition signature_mismatch :: error where
  "signature_mismatch =
     Error ''Error'' (Some ''StripeSignatureVerificationError'')
       ''No signatures found matching the expected signature for payload.''"

definition connection_timeout :: error where
  "connection_timeout =
     Error ''Error'' (Some ''StripeConnectionError'') ''Request timed out.''"

definition example_camelize :: "string \<Rightarrow> string" where
  "example_camelize k =
     (if k = ''SecretKeyString'' then ''secretKeyString''
      else if k = ''EndpointSecretStoreString'' then ''endpointSecretStoreString''
      else if k = ''Url'' then ''url''
      else if k = ''Description'' then ''description''
      else if k = ''Events'' then ''events''
      else if k = ''Region'' then ''region''
      else if k = ''FunctionName'' then ''functionName''
      else if k = ''Configuration'' then ''configuration''
      else k)"

definition example_env :: "string list \<Rightarrow> error + obj \<Rightarrow> env" where
  "example_env existing waiter =
    \<lparr>camelizeKeys = map (\<lambda>(k, v). (example_camelize k, v)),
     getValue = (\<lambda>k. case k of
        SecretKey (Str s) _ \<Rightarrow>
          if s = ''api-key-locator'' then Inr ''sk_test_1''
          else if s = ''endpoint-secret-locator'' then Inr ''whsec_1''
          else Inl (Error ''ResourceNotFoundException'' None ''Secret not found.'')
      | SecretKey _ _ \<Rightarrow> Inl (Error ''SyntaxError'' None ''Unexpected token u in JSON'')),
     putSecret = (\<lambda>_ _. Inr ()),
     webhookEndpoints_create = (\<lambda>_ p _.
        Inr [(''id'', Str ''we_123''), (''object'', Str ''webhook_endpoint''),
             (''url'', url p), (''enabled_events'', enabled_events p),
             (''secret'', Str ''whsec_1'')]),
     webhookEndpoints_update = (\<lambda>_ i p _.
        if i \<in> set existing
        then Inr [(''id'', Str i), (''object'', Str ''webhook_endpoint''),
                  (''url'', url p), (''enabled_events'', enabled_events p)]
        else Inl (no_such_webhook i)),
     webhookEndpoints_del = (\<lambda>_ i _ _.
        if i \<in> set existing
        then Inr [(''id'', Str i), (''object'', Str ''webhook_endpoint''),
                  (''deleted'', Bool True)]
        else Inl (no_such_webhook i)),
     webhooks_constructEvent = (\<lambda>_ b sig secret.
        if sig = ''t=1,v1=good'' \<and> secret = ''whsec_1''
        then Inr [(''id'', Str ''evt_1''), (''type'', Str ''charge.succeeded''),
                  (''data'', Str b)]
        else Inl signature_mismatch),
     getEnv = (\<lambda>n d. case d of
        Some v \<Rightarrow> Inr v
      | None \<Rightarrow>
          if n = ''ENDPOINT_SECRET_STRING'' then Inr ''endpoint-secret-locator''
          else if n = ''SECRET_KEY_STRING'' then Inr ''api-key-locator''
          else Inl (new_Error (''Environment variable not set: '' @ n))),
     process_env = (\<lambda>n. if n = ''SOURCE'' then Some ''stripe'' else None),
     JSON_stringify = (\<lambda>ob. concat (map (\<lambda>(k, v). k @ '';'') ob)),
     eventBridge_send = (\<lambda>_. Inr ()),
     toString = (\<lambda>v. case v of Str s \<Rightarrow> s | _ \<Rightarrow> ''undefined''),
     lambda_send = (\<lambda>_ c. case c of
        GetFunctionCommand _ \<Rightarrow>
          Inr [(''Code'', Obj [(''Location'', Str ''https://code.example/fn.zip'')])]
      | UpdateFunctionCodeCommand _ _ _ \<Rightarrow>
          Inr [(''CodeSha256'', Str ''c0de''), (''Version'', Str ''7''),
               (''FunctionArn'', Str ''arn:aws:lambda:us-east-1:1:function:edge:7'')]),
     axios_get = (\<lambda>_ _. Inr ''zipped''),
     Zip_new = (\<lambda>b. case b of None \<Rightarrow> Inr [] | Some d \<Rightarrow> Inr [(''index.js'', d)]),
     mkdtempSync = (\<lambda>prefix. Inr (prefix @ ''abc'')),
     extractAllTo = (\<lambda>_ _ _. Inr ()),
     path_resolve = (\<lambda>d f. d @ ''/'' @ f),
     Buffer_from = (\<lambda>v. case v of
        Str s \<Rightarrow> Inr s
      | _ \<Rightarrow> Inl (Error ''TypeError'' None ''The first argument must be of type string.'')),
     writeFileSync = (\<lambda>_ _. Inr ()),
     addLocalFolder = (\<lambda>z d. Inr (z @ [(d, ''folder'')])),
     toBuffer = (\<lambda>z. Inr (concat (map fst z))),
     waitUntilFunctionActiveV2 = (\<lambda>_ _. waiter)\<rparr>"

definition example_properties :: obj where
  "example_properties =
     [(''SecretKeyString'', Str ''api-key-locator''),
      (''EndpointSecretStoreString'', Str ''endpoint-secret-store''),
      (''Url'', Str ''https://x/hook''),
      (''Events'', Arr [Str ''charge.succeeded''])]"

definition example_properties_no_store :: obj where
  "example_properties_no_store =
     [(''SecretKeyString'', Str ''api-key-locator''),
      (''Url'', Str ''https://x/hook''),
      (''Events'', Arr [Str ''charge.succeeded''])]"

definition example_lambda_properties :: obj where
  "example_lambda_properties =
     [(''Region'', Str ''us-east-1''),
      (''FunctionName'', Str ''edge''),
      (''Configuration'', Str ''{}'')]"

definition example_module :: producer_module where
  "example_module =
     \<lparr>endpointSecretKey = SecretKey (Str ''endpoint-secret-locator'') \<lparr>maxAttempts = 5\<rparr>,
      apiSecretKey = SecretKey (Str ''api-key-locator'') \<lparr>maxAttempts = 5\<rparr>\<rparr>"

section \<open>Terms the handlers build, named for the statements below\<close>

abbreviation webhook_key :: "env \<Rightarrow> obj \<Rightarrow> SecretKey" where
  "webhook_key e ps \<equiv>
     SecretKey (get_prop (camelizeKeys e ps) ''secretKeyString'') \<lparr>maxAttempts = 5\<rparr>"

abbreviation webhook_stripe :: "string \<Rightarrow> Stripe" where
  "webhook_stripe val \<equiv>
     Stripe val \<lparr>apiVersion = ''2020-08-27'', telemetry = None, typescript = None\<rparr>"

abbreviation webhook_params :: "env \<Rightarrow> obj \<Rightarrow> WebhookEndpointParams" where
  "webhook_params e ps \<equiv>
     \<lparr>url = get_prop (camelizeKeys e ps) ''url'',
      description = get_prop (camelizeKeys e ps) ''description'',
      enabled_events = get_prop (camelizeKeys e ps) ''events''\<rparr>"

abbreviation webhook_store :: "env \<Rightarrow> obj \<Rightarrow> SecretKeyStore" where
  "webhook_store e ps \<equiv>
     SecretKeyStore (get_prop (camelizeKeys e ps) ''endpointSecretStoreString'')
       \<lparr>maxAttempts = 5\<rparr>"

abbreviation producer_stripe :: "string \<Rightarrow> Stripe" where
  "producer_stripe apiKey \<equiv>
     Stripe apiKey
       \<lparr>apiVersion = ''2020-08-27'', telemetry = Some False, typescript = Some True\<rparr>"

abbreviation producer_params :: "env \<Rightarrow> obj \<Rightarrow> string \<Rightarrow> PutEventsCommandInput" where
  "producer_params e eventReceived busName \<equiv>
     \<lparr>Entries = [\<lparr>Detail = JSON_stringify e (delete_prop ''type'' eventReceived),
                  DetailType = get_prop eventReceived ''type'',
                  EventBusName = busName,
                  Resources = [],
                  Source = process_env e ''SOURCE''\<rparr>]\<rparr>"

text \<open>The calls of a trace that go to the resource API of the external service.\<close>

fun is_api_call :: "call \<Rightarrow> bool" where
  "is_api_call (WebhookEndpointsCreate s p ro) = True"
| "is_api_call (WebhookEndpointsUpdate s i p ro) = True"
| "is_api_call (WebhookEndpointsDel s i p ro) = True"
| "is_api_call c = False"

text \<open>
  The retry number a call was configured with: \<open>maxAttempts\<close> of the secret clients,
  \<open>maxNetworkRetries\<close> of a Stripe request. Which errors the client libraries retry
  is decided inside those libraries and is not part of the handlers.
\<close>

fun retry_budget :: "call \<Rightarrow> nat option" where
  "retry_budget (GetValue (SecretKey s opts)) = Some (maxAttempts opts)"
| "retry_budget (PutSecret (SecretKeyStore s opts) v) = Some (maxAttempts opts)"
| "retry_budget (WebhookEndpointsCreate s p ro) = Some (maxNetworkRetries ro)"
| "retry_budget (WebhookEndpointsUpdate s i p ro) = Some (maxNetworkRetries ro)"
| "retry_budget (WebhookEndpointsDel s i p ro) = Some (maxNetworkRetries ro)"
| "retry_budget (ConstructEvent s b sig secret) = None"
| "retry_budget (Send p) = None"

section \<open>The polling variant returns before the waiter settles\<close>

text \<open>
  Whatever the waiter does later, the value \<open>updateLambdaCode\<close> returns is the one the
  variable held at line 117: the initial FAILED / Internal Error record.
\<close>

lemma updateLambdaCode_returned:
  assumes "updateLambdaCode e event = Inr out"
  shows "returned out =
           \<lparr>physicalResourceId =
              get_prop (camelizeKeys e (ResourceProperties event)) ''functionName'',
            responseData = [], responseStatus = ''FAILED'', reason = ''Internal Error''\<rparr>"
  using assms
  by (auto simp: updateLambdaCode_def andThen_def Let_def split: sum.splits if_splits)

text \<open>
  Claim C1. The claim: a create or update of the configuration-injection handler returns
  only after the wait for the active state has resolved, with a success result (code
  SHA, version, function ARN) when the function became active. The code at a create
  event for the function \<open>edge\<close>, in a world where every call succeeds and the waiter
  reports success: the handler returns the record FAILED / Internal Error with empty
  response data; the success record is assigned to the variable only when the callback
  runs, after the return.
\<close>

theorem updateLambdaCode_returns_before_waiter:
  "waitUntilFunctionActiveV2 (example_env [] (Inr [(''state'', Str ''SUCCESS'')]))
      \<lparr>client = \<lparr>region = Str ''us-east-1''\<rparr>, maxWaitTime = 60\<rparr> (Str ''edge'')
     = Inr [(''state'', Str ''SUCCESS'')]
   \<and> handleCreate_withConfiguration (example_env [] (Inr [(''state'', Str ''SUCCESS'')]))
        \<lparr>ResourceProperties = example_lambda_properties\<rparr>
     = Inr \<lparr>physicalResourceId = Str ''edge'', responseData = [],
            responseStatus = ''FAILED'', reason = ''Internal Error''\<rparr>
   \<and> map_sum id (responseDetails \<circ> run_reactions \<circ> pending)
        (updateLambdaCode (example_env [] (Inr [(''state'', Str ''SUCCESS'')]))
           \<lparr>ResourceProperties = example_lambda_properties\<rparr>)
     = Inr \<lparr>physicalResourceId = Str ''edge'',
            responseData = [(''CodeSha256'', Str ''c0de''), (''Version'', Str ''7''),
               (''FunctionArn'', Str ''arn:aws:lambda:us-east-1:1:function:edge:7'')],
            responseStatus = ''SUCCESS'', reason = ''Lambda function edge is active.''\<rparr>"
  by (simp add: handleCreate_withConfiguration_def updateLambdaCode_def andThen_def
      example_env_def example_lambda_properties_def example_camelize_def get_prop_def
      run_reactions_def onFulfilled_def Let_def)

section \<open>Delete\<close>

lemma handleDelete_fst:
  "fst (handleDelete e event) =
     (case getValue e (webhook_key e (ResourceProperties event)) of
        Inl err \<Rightarrow> Inl err
      | Inr val \<Rightarrow>
         (case webhookEndpoints_del e (webhook_stripe val) (PhysicalResourceId event) Undefined
                 \<lparr>maxNetworkRetries = 5\<rparr> of
            Inl err \<Rightarrow> Inl err
          | Inr d \<Rightarrow> Inr ()))"
  by (simp add: handleDelete_def Let_def split: sum.splits)

text \<open>
  Claim C2, as stated: a delete of a resource that the external API reports absent
  returns success, so two deletes of one id both succeed. It fails: the first delete of
  \<open>we_123\<close> succeeds; the account then no longer holds the endpoint, the API answers
  the second delete with its "No such webhook endpoint" error, and \<open>handleDelete\<close>
  raises that error.
\<close>

theorem handleDelete_twice_counterexample:
  "fst (handleDelete (example_env [''we_123''] (Inr []))
          \<lparr>ResourceProperties = example_properties, PhysicalResourceId = ''we_123''\<rparr>) = Inr ()
   \<and> webhookEndpoints_del (example_env [] (Inr [])) (webhook_stripe ''sk_test_1'') ''we_123''
        Undefined \<lparr>maxNetworkRetries = 5\<rparr> = Inl (no_such_webhook ''we_123'')
   \<and> fst (handleDelete (example_env [] (Inr []))
          \<lparr>ResourceProperties = example_properties, PhysicalResourceId = ''we_123''\<rparr>)
       = Inl (no_such_webhook ''we_123'')"
  by (simp add: handleDelete_def example_env_def example_properties_def example_camelize_def
      get_prop_def Let_def)

text \<open>
  Claim C2, amended: a delete returns success exactly when the secret resolution and the
  external delete call both succeed; when the external API answers the delete call with
  an error (that the resource is absent included), the delete raises that same error.
\<close>

theorem handleDelete_succeeds_iff_api_accepts:
  "(fst (handleDelete e event) = Inr ()) =
     (\<exists>val d. getValue e (webhook_key e (ResourceProperties event)) = Inr val
        \<and> webhookEndpoints_del e (webhook_stripe val) (PhysicalResourceId event) Undefined
             \<lparr>maxNetworkRetries = 5\<rparr> = Inr d)
   \<and> (\<forall>val err. getValue e (webhook_key e (ResourceProperties event)) = Inr val
        \<and> webhookEndpoints_del e (webhook_stripe val) (PhysicalResourceId event) Undefined
             \<lparr>maxNetworkRetries = 5\<rparr> = Inl err
        \<longrightarrow> fst (handleDelete e event) = Inl err)"
  by (auto simp: handleDelete_fst split: sum.splits)

theorem handleDelete_succeeds_iff_api_accepts_witness:
  "getValue (example_env [] (Inr [])) (webhook_key (example_env [] (Inr [])) example_properties)
     = Inr ''sk_test_1''
   \<and> webhookEndpoints_del (example_env [] (Inr [])) (webhook_stripe ''sk_test_1'') ''we_9''
        Undefined \<lparr>maxNetworkRetries = 5\<rparr> = Inl (no_such_webhook ''we_9'')
   \<and> fst (handleDelete (example_env [] (Inr []))
          \<lparr>ResourceProperties = example_properties, PhysicalResourceId = ''we_9''\<rparr>)
       = Inl (no_such_webhook ''we_9'')"
proof -
  let ?e = "example_env [] (Inr [])"
  let ?ev = "\<lparr>ResourceProperties = example_properties, PhysicalResourceId = ''we_9''\<rparr>"
  have k: "getValue ?e (webhook_key ?e example_properties) = Inr ''sk_test_1''"
    by (simp add: example_env_def example_properties_def example_camelize_def get_prop_def)
  have d: "webhookEndpoints_del ?e (webhook_stripe ''sk_test_1'') ''we_9''
        Undefined \<lparr>maxNetworkRetries = 5\<rparr> = Inl (no_such_webhook ''we_9'')"
    by (simp add: example_env_def)
  from handleDelete_succeeds_iff_api_accepts [of ?e ?ev] k d
  have "fst (handleDelete ?e ?ev) = Inl (no_such_webhook ''we_9'')"
    by simp
  with k d show ?thesis by simp
qed

section \<open>Create: the signing secret\<close>

lemma get_prop_delete_prop:
  "get_prop (delete_prop k ob) k' = (if k' = k then Undefined else get_prop ob k')"
  by (simp add: get_prop_def delete_prop_def delete_conv')

lemma map_of_delete_prop: "map_of (delete_prop k ob) = (map_of ob)(k := None)"
  by (simp add: delete_prop_def delete_conv')

lemma delete_prop_absent: "k \<notin> fst ` set (delete_prop k ob)"
  by (simp add: delete_prop_def delete_notin_dom)

lemma handleCreate_Inr:
  assumes "handleCreate e event = (Inr r, t)"
  shows "\<exists>val data.
      getValue e (webhook_key e (ResourceProperties event)) = Inr val
    \<and> webhookEndpoints_create e (webhook_stripe val) (webhook_params e (ResourceProperties event))
         \<lparr>maxNetworkRetries = 5\<rparr> = Inr data
    \<and> (if truthy (get_prop (camelizeKeys e (ResourceProperties event)) ''endpointSecretStoreString'')
           \<and> truthy (get_prop data ''secret'')
        then putSecret e (webhook_store e (ResourceProperties event)) (get_prop data ''secret'') = Inr ()
           \<and> r = \<lparr>physicalResourceId = get_prop data ''id'',
                   responseData = delete_prop ''secret'' data\<rparr>
           \<and> t = [GetValue (webhook_key e (ResourceProperties event)),
                  WebhookEndpointsCreate (webhook_stripe val)
                    (webhook_params e (ResourceProperties event)) \<lparr>maxNetworkRetries = 5\<rparr>,
                  PutSecret (webhook_store e (ResourceProperties event)) (get_prop data ''secret'')]
        else r = \<lparr>physicalResourceId = get_prop data ''id'', responseData = data\<rparr>
           \<and> t = [GetValue (webhook_key e (ResourceProperties event)),
                  WebhookEndpointsCreate (webhook_stripe val)
                    (webhook_params e (ResourceProperties event)) \<lparr>maxNetworkRetries = 5\<rparr>])"
  using assms
  by (auto simp: handleCreate_def Let_def spread_def get_prop_delete_prop
           split: sum.splits if_splits)

lemma handleCreate_PutSecret:
  assumes "PutSecret s v \<in> set (snd (handleCreate e event))"
  shows "truthy (get_prop (camelizeKeys e (ResourceProperties event)) ''endpointSecretStoreString'')
    \<and> s = webhook_store e (ResourceProperties event)
    \<and> (\<exists>val data.
          getValue e (webhook_key e (ResourceProperties event)) = Inr val
        \<and> webhookEndpoints_create e (webhook_stripe val)
             (webhook_params e (ResourceProperties event)) \<lparr>maxNetworkRetries = 5\<rparr> = Inr data
        \<and> truthy (get_prop data ''secret'') \<and> v = get_prop data ''secret'')"
  using assms
  by (auto simp: handleCreate_def Let_def split: sum.splits if_splits)

text \<open>
  Claim C3. When a create returns and the signing secret had to be stored (the store
  locator and the secret of the API's response are both truthy), the returned payload is
  the API's response with the property \<open>secret\<close> removed and every other property
  unchanged, the secret does not occur as a property of the payload, and the secret was
  put into the secret store, which accepted it.
\<close>

theorem handleCreate_redacts_stored_secret:
  assumes "handleCreate e event = (Inr r, t)"
  shows "\<exists>val data.
      getValue e (webhook_key e (ResourceProperties event)) = Inr val
    \<and> webhookEndpoints_create e (webhook_stripe val) (webhook_params e (ResourceProperties event))
         \<lparr>maxNetworkRetries = 5\<rparr> = Inr data
    \<and> (truthy (get_prop (camelizeKeys e (ResourceProperties event)) ''endpointSecretStoreString'')
         \<and> truthy (get_prop data ''secret'')
       \<longrightarrow> map_of (responseData r) = (map_of data)(''secret'' := None)
         \<and> ''secret'' \<notin> fst ` set (responseData r)
         \<and> get_prop (responseData r) ''secret'' = Undefined
         \<and> putSecret e (webhook_store e (ResourceProperties event)) (get_prop data ''secret'')
             = Inr ()
         \<and> PutSecret (webhook_store e (ResourceProperties event)) (get_prop data ''secret'')
             \<in> set t)"
proof -
  from handleCreate_Inr [OF assms] obtain val data where
    k: "getValue e (webhook_key e (ResourceProperties event)) = Inr val" and
    c: "webhookEndpoints_create e (webhook_stripe val)
          (webhook_params e (ResourceProperties event)) \<lparr>maxNetworkRetries = 5\<rparr> = Inr data" and
    b: "if truthy (get_prop (camelizeKeys e (ResourceProperties event)) ''endpointSecretStoreString'')
           \<and> truthy (get_prop data ''secret'')
        then putSecret e (webhook_store e (ResourceProperties event)) (get_prop data ''secret'') = Inr ()
           \<and> r = \<lparr>physicalResourceId = get_prop data ''id'',
                   responseData = delete_prop ''secret'' data\<rparr>
           \<and> t = [GetValue (webhook_key e (ResourceProperties event)),
                  WebhookEndpointsCreate (webhook_stripe val)
                    (webhook_params e (ResourceProperties event)) \<lparr>maxNetworkRetries = 5\<rparr>,
                  PutSecret (webhook_store e (ResourceProperties event)) (get_prop data ''secret'')]
        else r = \<lparr>physicalResourceId = get_prop data ''id'', responseData = data\<rparr>
           \<and> t = [GetValue (webhook_key e (ResourceProperties event)),
                  WebhookEndpointsCreate (webhook_stripe val)
                    (webhook_params e (ResourceProperties event)) \<lparr>maxNetworkRetries = 5\<rparr>]"
    by blast
  have "truthy (get_prop (camelizeKeys e (ResourceProperties event)) ''endpointSecretStoreString'')
         \<and> truthy (get_prop data ''secret'')
       \<longrightarrow> map_of (responseData r) = (map_of data)(''secret'' := None)
         \<and> ''secret'' \<notin> fst ` set (responseData r)
         \<and> get_prop (responseData r) ''secret'' = Undefined
         \<and> putSecret e (webhook_store e (ResourceProperties event)) (get_prop data ''secret'')
             = Inr ()
         \<and> PutSecret (webhook_store e (ResourceProperties event)) (get_prop data ''secret'')
             \<in> set t"
    using b by (simp add: map_of_delete_prop delete_prop_absent get_prop_delete_prop)
  with k c show ?thesis by blast
qed

lemma example_create:
  "handleCreate (example_env [] (Inr [])) \<lparr>ResourceProperties = example_properties\<rparr> =
    (Inr \<lparr>physicalResourceId = Str ''we_123'',
          responseData = [(''id'', Str ''we_123''), (''object'', Str ''webhook_endpoint''),
            (''url'', Str ''https://x/hook''),
            (''enabled_events'', Arr [Str ''charge.succeeded''])]\<rparr>,
     [GetValue (SecretKey (Str ''api-key-locator'') \<lparr>maxAttempts = 5\<rparr>),
      WebhookEndpointsCreate (webhook_stripe ''sk_test_1'')
        \<lparr>url = Str ''https://x/hook'', description = Undefined,
         enabled_events = Arr [Str ''charge.succeeded'']\<rparr> \<lparr>maxNetworkRetries = 5\<rparr>,
      PutSecret (SecretKeyStore (Str ''endpoint-secret-store'') \<lparr>maxAttempts = 5\<rparr>)
        (Str ''whsec_1'')])"
  by (simp add: handleCreate_def example_env_def example_properties_def example_camelize_def
      get_prop_def delete_prop_def spread_def AList.delete_eq Let_def)

theorem handleCreate_redacts_stored_secret_witness:
  "truthy (get_prop (camelizeKeys (example_env [] (Inr [])) example_properties)
     ''endpointSecretStoreString'')
   \<and> fst (handleCreate (example_env [] (Inr [])) \<lparr>ResourceProperties = example_properties\<rparr>)
       = Inr \<lparr>physicalResourceId = Str ''we_123'',
          responseData = [(''id'', Str ''we_123''), (''object'', Str ''webhook_endpoint''),
            (''url'', Str ''https://x/hook''),
            (''enabled_events'', Arr [Str ''charge.succeeded''])]\<rparr>
   \<and> (\<exists>val data.
        webhookEndpoints_create (example_env [] (Inr [])) (webhook_stripe val)
          (webhook_params (example_env [] (Inr [])) example_properties)
          \<lparr>maxNetworkRetries = 5\<rparr> = Inr data
      \<and> get_prop data ''secret'' = Str ''whsec_1'')"
proof -
  let ?e = "example_env [] (Inr [])"
  have l: "truthy (get_prop (camelizeKeys ?e example_properties) ''endpointSecretStoreString'')"
    by (simp add: example_env_def example_properties_def example_camelize_def get_prop_def)
  from handleCreate_redacts_stored_secret [OF example_create]
  obtain val data where
    c: "webhookEndpoints_create ?e (webhook_stripe val)
          (webhook_params ?e example_properties) \<lparr>maxNetworkRetries = 5\<rparr> = Inr data"
    by auto
  then have "get_prop data ''secret'' = Str ''whsec_1''"
    by (auto simp: example_env_def get_prop_def)
  with l c example_create show ?thesis by auto
qed


text \<open>
  Claim C9. When no store locator is supplied (the property is absent, or falsy), a
  create that returns hands back the API's response as it is, the signing secret
  included, and puts nothing into the secret store. A secret is put into the store only
  when the locator and the returned secret are both present, and the payload differs
  from the API's response only then.
\<close>

theorem handleCreate_keeps_secret_without_store:
  "(\<forall>r t. handleCreate e event = (Inr r, t)
        \<and> \<not> truthy (get_prop (camelizeKeys e (ResourceProperties event))
                       ''endpointSecretStoreString'')
      \<longrightarrow> (\<exists>val data.
             getValue e (webhook_key e (ResourceProperties event)) = Inr val
           \<and> webhookEndpoints_create e (webhook_stripe val)
                (webhook_params e (ResourceProperties event)) \<lparr>maxNetworkRetries = 5\<rparr> = Inr data
           \<and> responseData r = data
           \<and> get_prop (responseData r) ''secret'' = get_prop data ''secret'')
        \<and> (\<forall>s v. PutSecret s v \<notin> set t))
   \<and> (\<forall>s v. PutSecret s v \<in> set (snd (handleCreate e event))
      \<longrightarrow> truthy (get_prop (camelizeKeys e (ResourceProperties event))
                    ''endpointSecretStoreString'')
        \<and> (\<exists>val data.
             getValue e (webhook_key e (ResourceProperties event)) = Inr val
           \<and> webhookEndpoints_create e (webhook_stripe val)
                (webhook_params e (ResourceProperties event)) \<lparr>maxNetworkRetries = 5\<rparr> = Inr data
           \<and> truthy (get_prop data ''secret'') \<and> v = get_prop data ''secret''))
   \<and> (\<forall>r t val data. handleCreate e event = (Inr r, t)
        \<and> getValue e (webhook_key e (ResourceProperties event)) = Inr val
        \<and> webhookEndpoints_create e (webhook_stripe val)
             (webhook_params e (ResourceProperties event)) \<lparr>maxNetworkRetries = 5\<rparr> = Inr data
        \<and> responseData r \<noteq> data
      \<longrightarrow> truthy (get_prop (camelizeKeys e (ResourceProperties event))
                    ''endpointSecretStoreString'')
        \<and> truthy (get_prop data ''secret''))"
proof (intro conjI allI impI)
  fix r t
  assume a: "handleCreate e event = (Inr r, t)
        \<and> \<not> truthy (get_prop (camelizeKeys e (ResourceProperties event))
                       ''endpointSecretStoreString'')"
  from handleCreate_Inr [of e event r t] a
  show "\<exists>val data.
             getValue e (webhook_key e (ResourceProperties event)) = Inr val
           \<and> webhookEndpoints_create e (webhook_stripe val)
                (webhook_params e (ResourceProperties event)) \<lparr>maxNetworkRetries = 5\<rparr> = Inr data
           \<and> responseData r = data
           \<and> get_prop (responseData r) ''secret'' = get_prop data ''secret''"
    by auto
  fix s v
  from handleCreate_PutSecret [of s v e event] a
  show "PutSecret s v \<notin> set t" by auto
next
  fix s v
  assume "PutSecret s v \<in> set (snd (handleCreate e event))"
  from handleCreate_PutSecret [OF this]
  show "truthy (get_prop (camelizeKeys e (ResourceProperties event))
                    ''endpointSecretStoreString'')"
    and "\<exists>val data.
             getValue e (webhook_key e (ResourceProperties event)) = Inr val
           \<and> webhookEndpoints_create e (webhook_stripe val)
                (webhook_params e (ResourceProperties event)) \<lparr>maxNetworkRetries = 5\<rparr> = Inr data
           \<and> truthy (get_prop data ''secret'') \<and> v = get_prop data ''secret''"
    by blast+
next
  fix r t val data
  assume a: "handleCreate e event = (Inr r, t)
        \<and> getValue e (webhook_key e (ResourceProperties event)) = Inr val
        \<and> webhookEndpoints_create e (webhook_stripe val)
             (webhook_params e (ResourceProperties event)) \<lparr>maxNetworkRetries = 5\<rparr> = Inr data
        \<and> responseData r \<noteq> data"
  from handleCreate_Inr [of e event r t] a
  have "truthy (get_prop (camelizeKeys e (ResourceProperties event))
                    ''endpointSecretStoreString'')
        \<and> truthy (get_prop data ''secret'')"
    by (auto split: if_splits)
  then show "truthy (get_prop (camelizeKeys e (ResourceProperties event))
                    ''endpointSecretStoreString'')"
    and "truthy (get_prop data ''secret'')"
    by simp_all
qed

lemma example_create_no_store:
  "handleCreate (example_env [] (Inr [])) \<lparr>ResourceProperties = example_properties_no_store\<rparr> =
    (Inr \<lparr>physicalResourceId = Str ''we_123'',
          responseData = [(''id'', Str ''we_123''), (''object'', Str ''webhook_endpoint''),
            (''url'', Str ''https://x/hook''),
            (''enabled_events'', Arr [Str ''charge.succeeded'']),
            (''secret'', Str ''whsec_1'')]\<rparr>,
     [GetValue (SecretKey (Str ''api-key-locator'') \<lparr>maxAttempts = 5\<rparr>),
      WebhookEndpointsCreate (webhook_stripe ''sk_test_1'')
        \<lparr>url = Str ''https://x/hook'', description = Undefined,
         enabled_events = Arr [Str ''charge.succeeded'']\<rparr> \<lparr>maxNetworkRetries = 5\<rparr>])"
  by (simp add: handleCreate_def example_env_def example_properties_no_store_def
      example_camelize_def get_prop_def spread_def Let_def)

theorem handleCreate_keeps_secret_without_store_witness:
  "get_prop (camelizeKeys (example_env [] (Inr [])) example_properties_no_store)
     ''endpointSecretStoreString'' = Undefined
   \<and> (\<exists>r t. handleCreate (example_env [] (Inr []))
          \<lparr>ResourceProperties = example_properties_no_store\<rparr> = (Inr r, t)
        \<and> get_prop (responseData r) ''secret'' = Str ''whsec_1''
        \<and> PutSecret (webhook_store (example_env [] (Inr [])) example_properties_no_store)
             (Str ''whsec_1'') \<notin> set t)"
proof -
  let ?e = "example_env [] (Inr [])"
  let ?ev = "\<lparr>ResourceProperties = example_properties_no_store\<rparr>"
  have l: "get_prop (camelizeKeys ?e example_properties_no_store)
     ''endpointSecretStoreString'' = Undefined"
    by (simp add: example_env_def example_properties_no_store_def example_camelize_def
        get_prop_def)
  obtain r t where rt: "handleCreate ?e ?ev = (Inr r, t)"
    and s: "get_prop (responseData r) ''secret'' = Str ''whsec_1''"
    using example_create_no_store by (simp add: get_prop_def)
  from handleCreate_keeps_secret_without_store [of ?e ?ev] rt l
  have "PutSecret (webhook_store ?e example_properties_no_store) (Str ''whsec_1'') \<notin> set t"
    by simp
  with l rt s show ?thesis by blast
qed

section \<open>Results and traces of the three operations\<close>

lemma handleCreate_fst:
  "fst (handleCreate e event) =
     (case getValue e (webhook_key e (ResourceProperties event)) of
        Inl err \<Rightarrow> Inl err
      | Inr val \<Rightarrow>
         (case webhookEndpoints_create e (webhook_stripe val)
                 (webhook_params e (ResourceProperties event)) \<lparr>maxNetworkRetries = 5\<rparr> of
            Inl err \<Rightarrow> Inl err
          | Inr data \<Rightarrow>
             if truthy (get_prop (camelizeKeys e (ResourceProperties event))
                          ''endpointSecretStoreString'')
                \<and> truthy (get_prop data ''secret'')
             then (case putSecret e (webhook_store e (ResourceProperties event))
                          (get_prop data ''secret'') of
                     Inl err \<Rightarrow> Inl err
                   | Inr u \<Rightarrow> Inr \<lparr>physicalResourceId = get_prop data ''id'',
                                    responseData = delete_prop ''secret'' data\<rparr>)
             else Inr \<lparr>physicalResourceId = get_prop data ''id'', responseData = data\<rparr>))"
  by (simp add: handleCreate_def Let_def spread_def get_prop_delete_prop split: sum.splits)

lemma handleUpdate_fst:
  "fst (handleUpdate e event) =
     (case getValue e (webhook_key e (ResourceProperties event)) of
        Inl err \<Rightarrow> Inl err
      | Inr val \<Rightarrow>
         (case webhookEndpoints_update e (webhook_stripe val) (PhysicalResourceId event)
                 (webhook_params e (ResourceProperties event)) \<lparr>maxNetworkRetries = 5\<rparr> of
            Inl err \<Rightarrow> Inl err
          | Inr data \<Rightarrow> Inr \<lparr>physicalResourceId = get_prop data ''id'', responseData = data\<rparr>))"
  by (simp add: handleUpdate_def Let_def spread_def split: sum.splits)

lemma handleUpdate_snd:
  "snd (handleUpdate e event) =
     (case getValue e (webhook_key e (ResourceProperties event)) of
        Inl err \<Rightarrow> [GetValue (webhook_key e (ResourceProperties event))]
      | Inr val \<Rightarrow>
         [GetValue (webhook_key e (ResourceProperties event)),
          WebhookEndpointsUpdate (webhook_stripe val) (PhysicalResourceId event)
            (webhook_params e (ResourceProperties event)) \<lparr>maxNetworkRetries = 5\<rparr>])"
  by (simp add: handleUpdate_def Let_def split: sum.splits)

lemma handleDelete_snd:
  "snd (handleDelete e event) =
     (case getValue e (webhook_key e (ResourceProperties event)) of
        Inl err \<Rightarrow> [GetValue (webhook_key e (ResourceProperties event))]
      | Inr val \<Rightarrow>
         [GetValue (webhook_key e (ResourceProperties event)),
          WebhookEndpointsDel (webhook_stripe val) (PhysicalResourceId event) Undefined
            \<lparr>maxNetworkRetries = 5\<rparr>])"
  by (simp add: handleDelete_def Let_def split: sum.splits)

text \<open>
  Claim C5. A create that returns gives as physical resource id the property \<open>id\<close> of
  the object the external service answered the creation with. Every call that an update
  or a delete issues to the resource API is an update call, or a delete call, on exactly
  the physical id of the incoming request, and a successful update or delete has issued
  that call. An update that returns gives as physical resource id the property \<open>id\<close> of
  the object the external service answered that update call with, and that object as
  payload; a delete returns no identifier. A create issues no call to the resource API
  other than the creation. So no operation makes up an identifier.
\<close>

theorem physical_id_from_service_and_request:
  "(\<forall>r t. handleCreate e cev = (Inr r, t)
      \<longrightarrow> (\<exists>val data.
             getValue e (webhook_key e (ResourceProperties cev)) = Inr val
           \<and> webhookEndpoints_create e (webhook_stripe val)
                (webhook_params e (ResourceProperties cev)) \<lparr>maxNetworkRetries = 5\<rparr> = Inr data
           \<and> physicalResourceId r = get_prop data ''id''))
   \<and> (\<forall>c \<in> set (snd (handleUpdate e uev)). is_api_call c
      \<longrightarrow> (\<exists>s p ro. c = WebhookEndpointsUpdate s (PhysicalResourceId uev) p ro))
   \<and> (\<forall>r. fst (handleUpdate e uev) = Inr r
      \<longrightarrow> (\<exists>s p ro. WebhookEndpointsUpdate s (PhysicalResourceId uev) p ro
             \<in> set (snd (handleUpdate e uev))))
   \<and> (\<forall>c \<in> set (snd (handleDelete e dev)). is_api_call c
      \<longrightarrow> (\<exists>s p ro. c = WebhookEndpointsDel s (PhysicalResourceId dev) p ro))
   \<and> (fst (handleDelete e dev) = Inr ()
      \<longrightarrow> (\<exists>s p ro. WebhookEndpointsDel s (PhysicalResourceId dev) p ro
             \<in> set (snd (handleDelete e dev))))
   \<and> (\<forall>r. fst (handleUpdate e uev) = Inr r
      \<longrightarrow> (\<exists>val data.
             getValue e (webhook_key e (ResourceProperties uev)) = Inr val
           \<and> webhookEndpoints_update e (webhook_stripe val) (PhysicalResourceId uev)
                (webhook_params e (ResourceProperties uev)) \<lparr>maxNetworkRetries = 5\<rparr> = Inr data
           \<and> physicalResourceId r = get_prop data ''id''
           \<and> responseData r = data))
   \<and> (\<forall>c \<in> set (snd (handleCreate e cev)). is_api_call c
      \<longrightarrow> (\<exists>s p ro. c = WebhookEndpointsCreate s p ro))"
proof (intro conjI)
  show "\<forall>r. fst (handleUpdate e uev) = Inr r
      \<longrightarrow> (\<exists>val data.
             getValue e (webhook_key e (ResourceProperties uev)) = Inr val
           \<and> webhookEndpoints_update e (webhook_stripe val) (PhysicalResourceId uev)
                (webhook_params e (ResourceProperties uev)) \<lparr>maxNetworkRetries = 5\<rparr> = Inr data
           \<and> physicalResourceId r = get_prop data ''id''
           \<and> responseData r = data)"
    by (auto simp: handleUpdate_fst split: sum.splits)
next
  show "\<forall>c \<in> set (snd (handleCreate e cev)). is_api_call c
      \<longrightarrow> (\<exists>s p ro. c = WebhookEndpointsCreate s p ro)"
    by (auto simp: handleCreate_def Let_def split: sum.splits if_splits)
next
  show "\<forall>r t. handleCreate e cev = (Inr r, t)
      \<longrightarrow> (\<exists>val data.
             getValue e (webhook_key e (ResourceProperties cev)) = Inr val
           \<and> webhookEndpoints_create e (webhook_stripe val)
                (webhook_params e (ResourceProperties cev)) \<lparr>maxNetworkRetries = 5\<rparr> = Inr data
           \<and> physicalResourceId r = get_prop data ''id'')"
  proof (intro allI impI)
    fix r t assume "handleCreate e cev = (Inr r, t)"
    from handleCreate_Inr [OF this] show "\<exists>val data.
             getValue e (webhook_key e (ResourceProperties cev)) = Inr val
           \<and> webhookEndpoints_create e (webhook_stripe val)
                (webhook_params e (ResourceProperties cev)) \<lparr>maxNetworkRetries = 5\<rparr> = Inr data
           \<and> physicalResourceId r = get_prop data ''id''"
      by (auto split: if_splits)
  qed
next
  show "\<forall>c \<in> set (snd (handleUpdate e uev)). is_api_call c
      \<longrightarrow> (\<exists>s p ro. c = WebhookEndpointsUpdate s (PhysicalResourceId uev) p ro)"
    by (auto simp: handleUpdate_snd split: sum.splits)
next
  show "\<forall>r. fst (handleUpdate e uev) = Inr r
      \<longrightarrow> (\<exists>s p ro. WebhookEndpointsUpdate s (PhysicalResourceId uev) p ro
             \<in> set (snd (handleUpdate e uev)))"
    by (auto simp: handleUpdate_fst handleUpdate_snd split: sum.splits)
next
  show "\<forall>c \<in> set (snd (handleDelete e dev)). is_api_call c
      \<longrightarrow> (\<exists>s p ro. c = WebhookEndpointsDel s (PhysicalResourceId dev) p ro)"
    by (auto simp: handleDelete_snd split: sum.splits)
next
  show "fst (handleDelete e dev) = Inr ()
      \<longrightarrow> (\<exists>s p ro. WebhookEndpointsDel s (PhysicalResourceId dev) p ro
             \<in> set (snd (handleDelete e dev)))"
    by (auto simp: handleDelete_fst handleDelete_snd split: sum.splits)
qed

lemma example_update:
  "handleUpdate (example_env [''we_123''] (Inr []))
     \<lparr>ResourceProperties = example_properties, PhysicalResourceId = ''we_123''\<rparr> =
    (Inr \<lparr>physicalResourceId = Str ''we_123'',
          responseData = [(''id'', Str ''we_123''), (''object'', Str ''webhook_endpoint''),
            (''url'', Str ''https://x/hook''),
            (''enabled_events'', Arr [Str ''charge.succeeded''])]\<rparr>,
     [GetValue (SecretKey (Str ''api-key-locator'') \<lparr>maxAttempts = 5\<rparr>),
      WebhookEndpointsUpdate (webhook_stripe ''sk_test_1'') ''we_123''
        \<lparr>url = Str ''https://x/hook'', description = Undefined,
         enabled_events = Arr [Str ''charge.succeeded'']\<rparr> \<lparr>maxNetworkRetries = 5\<rparr>])"
  by (simp add: handleUpdate_def example_env_def example_properties_def example_camelize_def
      get_prop_def spread_def Let_def)

lemma example_delete:
  "handleDelete (example_env [''we_123''] (Inr []))
     \<lparr>ResourceProperties = example_properties, PhysicalResourceId = ''we_123''\<rparr> =
    (Inr (),
     [GetValue (SecretKey (Str ''api-key-locator'') \<lparr>maxAttempts = 5\<rparr>),
      WebhookEndpointsDel (webhook_stripe ''sk_test_1'') ''we_123'' Undefined
        \<lparr>maxNetworkRetries = 5\<rparr>])"
  by (simp add: handleDelete_def example_env_def example_properties_def example_camelize_def
      get_prop_def Let_def)

theorem physical_id_from_service_and_request_witness:
  "fst (handleCreate (example_env [''we_123''] (Inr [])) \<lparr>ResourceProperties = example_properties\<rparr>)
     = Inr \<lparr>physicalResourceId = Str ''we_123'',
          responseData = [(''id'', Str ''we_123''), (''object'', Str ''webhook_endpoint''),
            (''url'', Str ''https://x/hook''),
            (''enabled_events'', Arr [Str ''charge.succeeded''])]\<rparr>
   \<and> is_api_call (snd (handleUpdate (example_env [''we_123''] (Inr []))
         \<lparr>ResourceProperties = example_properties, PhysicalResourceId = ''we_123''\<rparr>) ! 1)
   \<and> fst (handleUpdate (example_env [''we_123''] (Inr []))
         \<lparr>ResourceProperties = example_properties, PhysicalResourceId = ''we_123''\<rparr>)
     = Inr \<lparr>physicalResourceId = Str ''we_123'',
          responseData = [(''id'', Str ''we_123''), (''object'', Str ''webhook_endpoint''),
            (''url'', Str ''https://x/hook''),
            (''enabled_events'', Arr [Str ''charge.succeeded''])]\<rparr>
   \<and> fst (handleDelete (example_env [''we_123''] (Inr []))
         \<lparr>ResourceProperties = example_properties, PhysicalResourceId = ''we_123''\<rparr>) = Inr ()
   \<and> WebhookEndpointsDel (webhook_stripe ''sk_test_1'') ''we_123'' Undefined
        \<lparr>maxNetworkRetries = 5\<rparr>
      \<in> set (snd (handleDelete (example_env [''we_123''] (Inr []))
         \<lparr>ResourceProperties = example_properties, PhysicalResourceId = ''we_123''\<rparr>))"
proof -
  let ?e = "example_env [''we_123''] (Inr [])"
  have c: "handleCreate ?e \<lparr>ResourceProperties = example_properties\<rparr> =
    (Inr \<lparr>physicalResourceId = Str ''we_123'',
          responseData = [(''id'', Str ''we_123''), (''object'', Str ''webhook_endpoint''),
            (''url'', Str ''https://x/hook''),
            (''enabled_events'', Arr [Str ''charge.succeeded''])]\<rparr>,
     [GetValue (SecretKey (Str ''api-key-locator'') \<lparr>maxAttempts = 5\<rparr>),
      WebhookEndpointsCreate (webhook_stripe ''sk_test_1'')
        \<lparr>url = Str ''https://x/hook'', description = Undefined,
         enabled_events = Arr [Str ''charge.succeeded'']\<rparr> \<lparr>maxNetworkRetries = 5\<rparr>,
      PutSecret (SecretKeyStore (Str ''endpoint-secret-store'') \<lparr>maxAttempts = 5\<rparr>)
        (Str ''whsec_1'')])"
    by (simp add: handleCreate_def example_env_def example_properties_def example_camelize_def
      get_prop_def delete_prop_def spread_def AList.delete_eq Let_def)
  from physical_id_from_service_and_request
    [of ?e "\<lparr>ResourceProperties = example_properties\<rparr>"
        "\<lparr>ResourceProperties = example_properties, PhysicalResourceId = ''we_123''\<rparr>"
        "\<lparr>ResourceProperties = example_properties, PhysicalResourceId = ''we_123''\<rparr>"]
  show ?thesis
    using c example_update example_delete by simp
qed

text \<open>
  Claim C6, as stated: when the external API reports that the supplied physical id no
  longer exists, the update fails with the typed error UnknownResource. It fails: for
  the id \<open>we_gone\<close>, which the account does not hold, the update raises the very error
  the Stripe client raised, of type \<open>StripeInvalidRequestError\<close>; nothing named
  UnknownResource is produced.
\<close>

theorem handleUpdate_unknown_id_counterexample:
  "webhookEndpoints_update (example_env [] (Inr [])) (webhook_stripe ''sk_test_1'') ''we_gone''
        (webhook_params (example_env [] (Inr [])) example_properties)
        \<lparr>maxNetworkRetries = 5\<rparr>
     = Inl (Error ''Error'' (Some ''StripeInvalidRequestError'')
              ''No such webhook endpoint: we_gone'')
   \<and> fst (handleUpdate (example_env [] (Inr []))
          \<lparr>ResourceProperties = example_properties, PhysicalResourceId = ''we_gone''\<rparr>)
     = Inl (Error ''Error'' (Some ''StripeInvalidRequestError'')
              ''No such webhook endpoint: we_gone'')
   \<and> (case fst (handleUpdate (example_env [] (Inr []))
          \<lparr>ResourceProperties = example_properties, PhysicalResourceId = ''we_gone''\<rparr>) of
        Inl err \<Rightarrow> etype err \<noteq> Some ''UnknownResource'' \<and> name err \<noteq> ''UnknownResource''
      | Inr r \<Rightarrow> False)"
  by (simp add: handleUpdate_def example_env_def example_properties_def example_camelize_def
      get_prop_def no_such_webhook_def Let_def)

text \<open>
  Claim C6, amended: when the external API answers the update call with an error, the
  report that the supplied physical id no longer exists in particular, the update fails
  by raising that same error, unchanged (for Stripe an error of type
  \<open>StripeInvalidRequestError\<close>), after the secret resolution and that one update call
  and nothing else; the code has no error type UnknownResource of its own.
\<close>

theorem handleUpdate_raises_api_error_unchanged:
  assumes "getValue e (webhook_key e (ResourceProperties event)) = Inr val"
    and "webhookEndpoints_update e (webhook_stripe val) (PhysicalResourceId event)
           (webhook_params e (ResourceProperties event)) \<lparr>maxNetworkRetries = 5\<rparr> = Inl err"
  shows "handleUpdate e event =
           (Inl err,
            [GetValue (webhook_key e (ResourceProperties event)),
             WebhookEndpointsUpdate (webhook_stripe val) (PhysicalResourceId event)
               (webhook_params e (ResourceProperties event)) \<lparr>maxNetworkRetries = 5\<rparr>])"
  using assms by (simp add: handleUpdate_def Let_def)

theorem handleUpdate_raises_api_error_unchanged_witness:
  "getValue (example_env [] (Inr [])) (webhook_key (example_env [] (Inr [])) example_properties)
     = Inr ''sk_test_1''
   \<and> webhookEndpoints_update (example_env [] (Inr [])) (webhook_stripe ''sk_test_1'') ''we_gone''
        (webhook_params (example_env [] (Inr [])) example_properties)
        \<lparr>maxNetworkRetries = 5\<rparr> = Inl (no_such_webhook ''we_gone'')
   \<and> handleUpdate (example_env [] (Inr []))
          \<lparr>ResourceProperties = example_properties, PhysicalResourceId = ''we_gone''\<rparr>
       = (Inl (no_such_webhook ''we_gone''),
          [GetValue (SecretKey (Str ''api-key-locator'') \<lparr>maxAttempts = 5\<rparr>),
           WebhookEndpointsUpdate (webhook_stripe ''sk_test_1'') ''we_gone''
             \<lparr>url = Str ''https://x/hook'', description = Undefined,
              enabled_events = Arr [Str ''charge.succeeded'']\<rparr> \<lparr>maxNetworkRetries = 5\<rparr>])
   \<and> etype (no_such_webhook ''we_gone'') = Some ''StripeInvalidRequestError''"
proof -
  let ?e = "example_env [] (Inr [])"
  let ?ev = "\<lparr>ResourceProperties = example_properties, PhysicalResourceId = ''we_gone''\<rparr>"
  have k: "getValue ?e (webhook_key ?e (ResourceProperties ?ev)) = Inr ''sk_test_1''"
    by (simp add: example_env_def example_properties_def example_camelize_def get_prop_def)
  have u: "webhookEndpoints_update ?e (webhook_stripe ''sk_test_1'') (PhysicalResourceId ?ev)
        (webhook_params ?e (ResourceProperties ?ev))
        \<lparr>maxNetworkRetries = 5\<rparr> = Inl (no_such_webhook ''we_gone'')"
    by (simp add: example_env_def)
  have p: "webhook_key ?e (ResourceProperties ?ev)
             = SecretKey (Str ''api-key-locator'') \<lparr>maxAttempts = 5\<rparr>
     \<and> webhook_params ?e (ResourceProperties ?ev)
             = \<lparr>url = Str ''https://x/hook'', description = Undefined,
                enabled_events = Arr [Str ''charge.succeeded'']\<rparr>"
    by (simp add: example_env_def example_properties_def example_camelize_def get_prop_def)
  from handleUpdate_raises_api_error_unchanged [OF k u] k u p show ?thesis
    by (simp add: no_such_webhook_def)
qed

section \<open>The exported handler of the webhook module: faults become failed results\<close>

lemma handler_webhook_Create:
  "fst (handler_webhook e (Create event)) =
     (case fst (handleCreate e event) of
        Inr r \<Rightarrow> Success (physicalResourceId r) (responseData r)
      | Inl err \<Rightarrow> Failed (message err))"
  by (cases "handleCreate e event")
     (simp add: handler_webhook_def customResourceHelper_def split: sum.splits)

lemma handler_webhook_Update:
  "fst (handler_webhook e (Update event)) =
     (case fst (handleUpdate e event) of
        Inr r \<Rightarrow> Success (physicalResourceId r) (responseData r)
      | Inl err \<Rightarrow> Failed (message err))"
  by (cases "handleUpdate e event")
     (simp add: handler_webhook_def customResourceHelper_def split: sum.splits)

lemma handler_webhook_Delete:
  "fst (handler_webhook e (Delete event)) =
     (case fst (handleDelete e event) of
        Inr u \<Rightarrow> Success (Str (PhysicalResourceId event)) []
      | Inl err \<Rightarrow> Failed (message err))"
  by (cases "handleDelete e event")
     (simp add: handler_webhook_def customResourceHelper_def split: sum.splits)

lemma handler_webhook_terminal:
  "(\<exists>i p. fst (handler_webhook e req) = Success i p)
   \<or> (\<exists>s. fst (handler_webhook e req) = Failed s)"
  by (cases "fst (handler_webhook e req)") simp_all

text \<open>
  Claim C4. Through the exported handler, every create, update and delete ends in a
  terminal status, Success or Failed. A fault of the secret resolution, of the external
  API call (a timeout, say) or, in a create, of the write to the secret store does not
  leave the handler as an exception: the caller receives the status Failed with the
  message of the raised error as reason.
\<close>

theorem handler_webhook_reports_faults:
  "(\<forall>err. getValue e (webhook_key e (ResourceProperties cev)) = Inl err
      \<longrightarrow> fst (handler_webhook e (Create cev)) = Failed (message err))
   \<and> (\<forall>val err. getValue e (webhook_key e (ResourceProperties cev)) = Inr val
        \<and> webhookEndpoints_create e (webhook_stripe val)
             (webhook_params e (ResourceProperties cev)) \<lparr>maxNetworkRetries = 5\<rparr> = Inl err
      \<longrightarrow> fst (handler_webhook e (Create cev)) = Failed (message err))
   \<and> (\<forall>val data err. getValue e (webhook_key e (ResourceProperties cev)) = Inr val
        \<and> webhookEndpoints_create e (webhook_stripe val)
             (webhook_params e (ResourceProperties cev)) \<lparr>maxNetworkRetries = 5\<rparr> = Inr data
        \<and> truthy (get_prop (camelizeKeys e (ResourceProperties cev))
                    ''endpointSecretStoreString'')
        \<and> truthy (get_prop data ''secret'')
        \<and> putSecret e (webhook_store e (ResourceProperties cev)) (get_prop data ''secret'')
             = Inl err
      \<longrightarrow> fst (handler_webhook e (Create cev)) = Failed (message err))
   \<and> (\<forall>err. getValue e (webhook_key e (ResourceProperties uev)) = Inl err
      \<longrightarrow> fst (handler_webhook e (Update uev)) = Failed (message err))
   \<and> (\<forall>val err. getValue e (webhook_key e (ResourceProperties uev)) = Inr val
        \<and> webhookEndpoints_update e (webhook_stripe val) (PhysicalResourceId uev)
             (webhook_params e (ResourceProperties uev)) \<lparr>maxNetworkRetries = 5\<rparr> = Inl err
      \<longrightarrow> fst (handler_webhook e (Update uev)) = Failed (message err))
   \<and> (\<forall>err. getValue e (webhook_key e (ResourceProperties dev)) = Inl err
      \<longrightarrow> fst (handler_webhook e (Delete dev)) = Failed (message err))
   \<and> (\<forall>val err. getValue e (webhook_key e (ResourceProperties dev)) = Inr val
        \<and> webhookEndpoints_del e (webhook_stripe val) (PhysicalResourceId dev) Undefined
             \<lparr>maxNetworkRetries = 5\<rparr> = Inl err
      \<longrightarrow> fst (handler_webhook e (Delete dev)) = Failed (message err))
   \<and> (\<forall>err. fst (handleCreate e cev) = Inl err
      \<longrightarrow> fst (handler_webhook e (Create cev)) = Failed (message err))
   \<and> (\<forall>err. fst (handleUpdate e uev) = Inl err
      \<longrightarrow> fst (handler_webhook e (Update uev)) = Failed (message err))
   \<and> (\<forall>err. fst (handleDelete e dev) = Inl err
      \<longrightarrow> fst (handler_webhook e (Delete dev)) = Failed (message err))
   \<and> (\<forall>r. fst (handleCreate e cev) = Inr r
      \<longrightarrow> fst (handler_webhook e (Create cev))
            = Success (physicalResourceId r) (responseData r))
   \<and> (\<forall>r. fst (handleUpdate e uev) = Inr r
      \<longrightarrow> fst (handler_webhook e (Update uev))
            = Success (physicalResourceId r) (responseData r))
   \<and> (fst (handleDelete e dev) = Inr ()
      \<longrightarrow> fst (handler_webhook e (Delete dev)) = Success (Str (PhysicalResourceId dev)) [])
   \<and> (\<forall>req. (\<exists>i p. fst (handler_webhook e req) = Success i p)
            \<or> (\<exists>s. fst (handler_webhook e req) = Failed s))"
proof (intro conjI)
  show "\<forall>req. (\<exists>i p. fst (handler_webhook e req) = Success i p)
            \<or> (\<exists>s. fst (handler_webhook e req) = Failed s)"
    using handler_webhook_terminal by blast
qed (simp_all add: handler_webhook_Create handler_webhook_Update handler_webhook_Delete
       handleCreate_fst handleUpdate_fst handleDelete_fst)

theorem handler_webhook_reports_faults_witness:
  "webhookEndpoints_create
      ((example_env [] (Inr []))\<lparr>webhookEndpoints_create := \<lambda>s p ro. Inl connection_timeout\<rparr>)
      (webhook_stripe ''sk_test_1'')
      (webhook_params (example_env [] (Inr [])) example_properties)
      \<lparr>maxNetworkRetries = 5\<rparr> = Inl connection_timeout
   \<and> fst (handler_webhook
          ((example_env [] (Inr []))\<lparr>webhookEndpoints_create := \<lambda>s p ro. Inl connection_timeout\<rparr>)
          (Create \<lparr>ResourceProperties = example_properties\<rparr>))
     = Failed ''Request timed out.''
   \<and> fst (handler_webhook
          ((example_env [] (Inr []))\<lparr>webhookEndpoints_create := \<lambda>s p ro. Inl connection_timeout\<rparr>)
          (Update \<lparr>ResourceProperties = example_properties, PhysicalResourceId = ''we_gone''\<rparr>))
     = Failed ''No such webhook endpoint: we_gone''
   \<and> fst (handler_webhook
          ((example_env [] (Inr []))\<lparr>webhookEndpoints_create := \<lambda>s p ro. Inl connection_timeout\<rparr>)
          (Delete \<lparr>ResourceProperties = [(''SecretKeyString'', Str ''unknown-locator'')],
                   PhysicalResourceId = ''we_123''\<rparr>))
     = Failed ''Secret not found.''"
proof -
  let ?e = "(example_env [] (Inr []))
              \<lparr>webhookEndpoints_create := \<lambda>s p ro. Inl connection_timeout\<rparr>"
  let ?cev = "\<lparr>ResourceProperties = example_properties\<rparr>"
  let ?uev = "\<lparr>ResourceProperties = example_properties, PhysicalResourceId = ''we_gone''\<rparr>"
  let ?dev = "\<lparr>ResourceProperties = [(''SecretKeyString'', Str ''unknown-locator'')],
               PhysicalResourceId = ''we_123''\<rparr>"
  have k: "getValue ?e (webhook_key ?e (ResourceProperties ?cev)) = Inr ''sk_test_1''"
    and ku: "getValue ?e (webhook_key ?e (ResourceProperties ?uev)) = Inr ''sk_test_1''"
    and kd: "getValue ?e (webhook_key ?e (ResourceProperties ?dev))
       = Inl (Error ''ResourceNotFoundException'' None ''Secret not found.'')"
    by (simp_all add: example_env_def example_properties_def example_camelize_def get_prop_def)
  have c: "webhookEndpoints_create ?e (webhook_stripe ''sk_test_1'')
      (webhook_params ?e (ResourceProperties ?cev)) \<lparr>maxNetworkRetries = 5\<rparr>
      = Inl connection_timeout"
    by simp
  have u: "webhookEndpoints_update ?e (webhook_stripe ''sk_test_1'') (PhysicalResourceId ?uev)
      (webhook_params ?e (ResourceProperties ?uev)) \<lparr>maxNetworkRetries = 5\<rparr>
      = Inl (no_such_webhook ''we_gone'')"
    by (simp add: example_env_def)
  from handler_webhook_reports_faults [of ?e ?cev ?uev ?dev] k ku kd c u
  have "fst (handler_webhook ?e (Create ?cev)) = Failed (message connection_timeout)
     \<and> fst (handler_webhook ?e (Update ?uev)) = Failed (message (no_such_webhook ''we_gone''))
     \<and> fst (handler_webhook ?e (Delete ?dev)) = Failed ''Secret not found.''"
    by simp
  then show ?thesis
    by (simp add: connection_timeout_def no_such_webhook_def)
qed

section \<open>The event-bus producer: status codes and published events\<close>

lemma handler_fst:
  "fst (handler e m event) =
     (case fst (handler_try e m event) of
        Inr result \<Rightarrow> result
      | Inl err \<Rightarrow>
         if etype err = Some ''StripeSignatureVerificationError''
         then \<lparr>statusCode = 400, body = ''Webhook Error: '' @ message err\<rparr>
         else \<lparr>statusCode = 500, body = ''Error: '' @ message err\<rparr>)"
  by (cases "handler_try e m event") (simp add: handler_def split: sum.splits)

lemma handler_snd: "snd (handler e m event) = snd (handler_try e m event)"
  by (cases "handler_try e m event") (simp add: handler_def split: sum.splits)

lemma handler_try_verified:
  assumes "getValue e (apiSecretKey m) = Inr apiKey"
    and "map_of (headers event) ''Stripe-Signature'' = Some sig" and "sig \<noteq> []"
    and "getValue e (endpointSecretKey m) = Inr secret"
    and "APIGatewayProxyEvent.body event = Some b" and "b \<noteq> []"
  shows "handler_try e m event =
     (case webhooks_constructEvent e (producer_stripe apiKey) b sig secret of
        Inl err \<Rightarrow>
          (Inl err, [GetValue (apiSecretKey m), GetValue (endpointSecretKey m),
                     ConstructEvent (producer_stripe apiKey) b sig secret])
      | Inr ev \<Rightarrow>
          (case getEnv e ''EVENT_BUS_NAME'' (Some ''default'') of
             Inl err \<Rightarrow>
               (Inl err, [GetValue (apiSecretKey m), GetValue (endpointSecretKey m),
                          ConstructEvent (producer_stripe apiKey) b sig secret])
           | Inr bus \<Rightarrow>
               (case eventBridge_send e (producer_params e ev bus) of
                  Inl err \<Rightarrow>
                    (Inl err, [GetValue (apiSecretKey m), GetValue (endpointSecretKey m),
                               ConstructEvent (producer_stripe apiKey) b sig secret,
                               Send (producer_params e ev bus)])
                | Inr u \<Rightarrow>
                    (Inr \<lparr>statusCode = 200, body = ''Success''\<rparr>,
                     [GetValue (apiSecretKey m), GetValue (endpointSecretKey m),
                      ConstructEvent (producer_stripe apiKey) b sig secret,
                      Send (producer_params e ev bus)]))))"
  using assms by (simp add: handler_try_def Let_def split: sum.splits)

lemma handler_try_Inr:
  assumes "fst (handler_try e m event) = Inr r"
  shows "r = \<lparr>statusCode = 200, body = ''Success''\<rparr>
    \<and> (\<exists>p. published e (snd (handler_try e m event)) = [p])"
  using assms
  by (auto simp: handler_try_def published_def Let_def
           split: sum.splits option.splits if_splits)

lemma handler_try_Inl:
  assumes "fst (handler_try e m event) = Inl err"
  shows "published e (snd (handler_try e m event)) = []"
  using assms
  by (auto simp: handler_try_def published_def Let_def
           split: sum.splits option.splits if_splits)

lemma handler_try_missing:
  assumes "map_of (headers event) ''Stripe-Signature'' = None
         \<or> map_of (headers event) ''Stripe-Signature'' = Some []
         \<or> APIGatewayProxyEvent.body event = None
         \<or> APIGatewayProxyEvent.body event = Some []"
  shows "fst (handler_try e m event) = Inl (new_Error ''Stripe signature is missing'')
       \<or> fst (handler_try e m event) = Inl (new_Error ''event body undefined or null'')
       \<or> (\<exists>err. getValue e (apiSecretKey m) = Inl err \<and> fst (handler_try e m event) = Inl err)
       \<or> (\<exists>err. getValue e (endpointSecretKey m) = Inl err
             \<and> fst (handler_try e m event) = Inl err)"
  using assms
  by (auto simp: handler_try_def Let_def split: sum.splits option.splits if_splits)

text \<open>
  Claim C8. A request whose signature verification raises an error of type
  \<open>StripeSignatureVerificationError\<close> is answered with status 400 and the body
  "Webhook Error: " followed by the error's message; every other error that reaches the
  \<open>catch\<close> is answered with status 500; a request that is verified and whose event the
  event bus accepts is answered with status 200, and whenever the status is 200 the
  event has been published.
\<close>

theorem handler_status_codes:
  "(\<forall>apiKey sig secret b err.
       getValue e (apiSecretKey m) = Inr apiKey
     \<and> map_of (headers event) ''Stripe-Signature'' = Some sig \<and> sig \<noteq> []
     \<and> getValue e (endpointSecretKey m) = Inr secret
     \<and> APIGatewayProxyEvent.body event = Some b \<and> b \<noteq> []
     \<and> webhooks_constructEvent e (producer_stripe apiKey) b sig secret = Inl err
     \<and> etype err = Some ''StripeSignatureVerificationError''
     \<longrightarrow> fst (handler e m event)
           = \<lparr>statusCode = 400, body = ''Webhook Error: '' @ message err\<rparr>)
   \<and> (\<forall>err. fst (handler_try e m event) = Inl err
        \<and> etype err \<noteq> Some ''StripeSignatureVerificationError''
     \<longrightarrow> fst (handler e m event) = \<lparr>statusCode = 500, body = ''Error: '' @ message err\<rparr>)
   \<and> (\<forall>apiKey sig secret b ev bus.
       getValue e (apiSecretKey m) = Inr apiKey
     \<and> map_of (headers event) ''Stripe-Signature'' = Some sig \<and> sig \<noteq> []
     \<and> getValue e (endpointSecretKey m) = Inr secret
     \<and> APIGatewayProxyEvent.body event = Some b \<and> b \<noteq> []
     \<and> webhooks_constructEvent e (producer_stripe apiKey) b sig secret = Inr ev
     \<and> getEnv e ''EVENT_BUS_NAME'' (Some ''default'') = Inr bus
     \<and> eventBridge_send e (producer_params e ev bus) = Inr ()
     \<longrightarrow> fst (handler e m event) = \<lparr>statusCode = 200, body = ''Success''\<rparr>
       \<and> published e (snd (handler e m event)) = [producer_params e ev bus])
   \<and> (statusCode (fst (handler e m event)) = 200
     \<longrightarrow> (\<exists>p. published e (snd (handler e m event)) = [p]))"
proof (intro conjI allI impI)
  fix apiKey sig secret b err
  assume a: "getValue e (apiSecretKey m) = Inr apiKey
     \<and> map_of (headers event) ''Stripe-Signature'' = Some sig \<and> sig \<noteq> []
     \<and> getValue e (endpointSecretKey m) = Inr secret
     \<and> APIGatewayProxyEvent.body event = Some b \<and> b \<noteq> []
     \<and> webhooks_constructEvent e (producer_stripe apiKey) b sig secret = Inl err
     \<and> etype err = Some ''StripeSignatureVerificationError''"
  then have "fst (handler_try e m event) = Inl err"
    by (simp add: handler_try_verified [of e m apiKey event sig secret b])
  with a show "fst (handler e m event)
           = \<lparr>statusCode = 400, body = ''Webhook Error: '' @ message err\<rparr>"
    by (simp add: handler_fst)
next
  fix err
  assume "fst (handler_try e m event) = Inl err
        \<and> etype err \<noteq> Some ''StripeSignatureVerificationError''"
  then show "fst (handler e m event) = \<lparr>statusCode = 500, body = ''Error: '' @ message err\<rparr>"
    by (simp add: handler_fst)
next
  fix apiKey sig secret b ev bus
  assume a: "getValue e (apiSecretKey m) = Inr apiKey
     \<and> map_of (headers event) ''Stripe-Signature'' = Some sig \<and> sig \<noteq> []
     \<and> getValue e (endpointSecretKey m) = Inr secret
     \<and> APIGatewayProxyEvent.body event = Some b \<and> b \<noteq> []
     \<and> webhooks_constructEvent e (producer_stripe apiKey) b sig secret = Inr ev
     \<and> getEnv e ''EVENT_BUS_NAME'' (Some ''default'') = Inr bus
     \<and> eventBridge_send e (producer_params e ev bus) = Inr ()"
  then have t: "handler_try e m event =
      (Inr \<lparr>statusCode = 200, body = ''Success''\<rparr>,
       [GetValue (apiSecretKey m), GetValue (endpointSecretKey m),
        ConstructEvent (producer_stripe apiKey) b sig secret,
        Send (producer_params e ev bus)])"
    by (simp add: handler_try_verified [of e m apiKey event sig secret b])
  from t show "fst (handler e m event) = \<lparr>statusCode = 200, body = ''Success''\<rparr>"
    by (simp add: handler_fst)
  from t a show "published e (snd (handler e m event)) = [producer_params e ev bus]"
    by (simp add: handler_snd published_def)
next
  assume s: "statusCode (fst (handler e m event)) = 200"
  show "\<exists>p. published e (snd (handler e m event)) = [p]"
  proof (cases "fst (handler_try e m event)")
    case (Inl err)
    with s show ?thesis by (simp add: handler_fst split: if_splits)
  next
    case (Inr r)
    from handler_try_Inr [OF this] show ?thesis by (simp add: handler_snd)
  qed
qed

lemma example_handler_try_bad_signature:
  "getValue (example_env [] (Inr [])) (apiSecretKey example_module) = Inr ''sk_test_1''
   \<and> getValue (example_env [] (Inr [])) (endpointSecretKey example_module) = Inr ''whsec_1''
   \<and> webhooks_constructEvent (example_env [] (Inr [])) (producer_stripe ''sk_test_1'')
        ''{}'' ''t=1,v1=bad'' ''whsec_1'' = Inl signature_mismatch
   \<and> etype signature_mismatch = Some ''StripeSignatureVerificationError''"
  by (simp add: example_env_def example_module_def signature_mismatch_def)

lemma example_handler_try_good_signature:
  "webhooks_constructEvent (example_env [] (Inr [])) (producer_stripe ''sk_test_1'')
        ''{}'' ''t=1,v1=good'' ''whsec_1''
     = Inr [(''id'', Str ''evt_1''), (''type'', Str ''charge.succeeded''), (''data'', Str ''{}'')]
   \<and> getEnv (example_env [] (Inr [])) ''EVENT_BUS_NAME'' (Some ''default'') = Inr ''default''
   \<and> eventBridge_send (example_env [] (Inr [])) p = Inr ()"
  by (simp add: example_env_def)

theorem handler_status_codes_witness:
  "fst (handler (example_env [] (Inr [])) example_module
          \<lparr>headers = [(''Stripe-Signature'', ''t=1,v1=bad'')], body = Some ''{}''\<rparr>)
     = \<lparr>statusCode = 400,
        body = ''Webhook Error: No signatures found matching the expected signature for payload.''\<rparr>
   \<and> fst (handler (example_env [] (Inr [])) example_module
          \<lparr>headers = [(''Stripe-Signature'', ''t=1,v1=good'')], body = Some ''{}''\<rparr>)
     = \<lparr>statusCode = 200, body = ''Success''\<rparr>
   \<and> published (example_env [] (Inr []))
        (snd (handler (example_env [] (Inr [])) example_module
          \<lparr>headers = [(''Stripe-Signature'', ''t=1,v1=good'')], body = Some ''{}''\<rparr>))
     = [\<lparr>Entries = [\<lparr>Detail = ''id;data;'', DetailType = Str ''charge.succeeded'',
           EventBusName = ''default'', Resources = [], Source = Some ''stripe''\<rparr>]\<rparr>]"
proof -
  let ?e = "example_env [] (Inr [])"
  let ?bad = "\<lparr>headers = [(''Stripe-Signature'', ''t=1,v1=bad'')], body = Some ''{}''\<rparr>"
  let ?good = "\<lparr>headers = [(''Stripe-Signature'', ''t=1,v1=good'')], body = Some ''{}''\<rparr>"
  from handler_status_codes [of ?e example_module ?bad] example_handler_try_bad_signature
  have b: "fst (handler ?e example_module ?bad)
     = \<lparr>statusCode = 400, body = ''Webhook Error: '' @ message signature_mismatch\<rparr>"
    by simp
  from handler_status_codes [of ?e example_module ?good] example_handler_try_bad_signature
    example_handler_try_good_signature
  have g: "fst (handler ?e example_module ?good) = \<lparr>statusCode = 200, body = ''Success''\<rparr>
     \<and> published ?e (snd (handler ?e example_module ?good))
        = [producer_params ?e
            [(''id'', Str ''evt_1''), (''type'', Str ''charge.succeeded''), (''data'', Str ''{}'')]
            ''default'']"
    by simp
  have p: "producer_params ?e
            [(''id'', Str ''evt_1''), (''type'', Str ''charge.succeeded''), (''data'', Str ''{}'')]
            ''default''
     = \<lparr>Entries = [\<lparr>Detail = ''id;data;'', DetailType = Str ''charge.succeeded'',
           EventBusName = ''default'', Resources = [], Source = Some ''stripe''\<rparr>]\<rparr>"
    by (simp add: example_env_def get_prop_def delete_prop_def AList.delete_eq)
  from b g p show ?thesis by (simp add: signature_mismatch_def)
qed

text \<open>
  Claim C10. A request without the \<open>Stripe-Signature\<close> header, or without a body
  (either of them absent or empty), is answered with status 500, and on every error
  path, that is whenever the status is not 200, no event has been published. The two
  secret resolutions precede the checks, so the statement supposes what holds of the
  AWS clients: an error they raise is not typed as a Stripe signature error.
\<close>

theorem handler_missing_signature_or_body:
  assumes "\<forall>err. getValue e (apiSecretKey m) = Inl err
             \<longrightarrow> etype err \<noteq> Some ''StripeSignatureVerificationError''"
    and "\<forall>err. getValue e (endpointSecretKey m) = Inl err
             \<longrightarrow> etype err \<noteq> Some ''StripeSignatureVerificationError''"
  shows "(map_of (headers event) ''Stripe-Signature'' = None
          \<or> map_of (headers event) ''Stripe-Signature'' = Some []
          \<or> APIGatewayProxyEvent.body event = None
          \<or> APIGatewayProxyEvent.body event = Some []
         \<longrightarrow> statusCode (fst (handler e m event)) = 500)
       \<and> (\<forall>err. fst (handler_try e m event) = Inl err
         \<longrightarrow> published e (snd (handler e m event)) = [])
       \<and> (statusCode (fst (handler e m event)) \<noteq> 200
         \<longrightarrow> published e (snd (handler e m event)) = [])"
proof (intro conjI allI impI)
  assume "map_of (headers event) ''Stripe-Signature'' = None
          \<or> map_of (headers event) ''Stripe-Signature'' = Some []
          \<or> APIGatewayProxyEvent.body event = None
          \<or> APIGatewayProxyEvent.body event = Some []"
  from handler_try_missing [OF this, of e m]
  show "statusCode (fst (handler e m event)) = 500"
    using assms by (auto simp: handler_fst new_Error_def)
next
  fix err
  assume "fst (handler_try e m event) = Inl err"
  from handler_try_Inl [OF this] show "published e (snd (handler e m event)) = []"
    by (simp add: handler_snd)
next
  assume s: "statusCode (fst (handler e m event)) \<noteq> 200"
  show "published e (snd (handler e m event)) = []"
  proof (cases "fst (handler_try e m event)")
    case (Inl err)
    from handler_try_Inl [OF this] show ?thesis by (simp add: handler_snd)
  next
    case (Inr r)
    from handler_try_Inr [OF this] s Inr show ?thesis by (simp add: handler_fst)
  qed
qed

theorem handler_missing_signature_or_body_witness:
  "getValue (example_env [] (Inr [])) (apiSecretKey example_module) = Inr ''sk_test_1''
   \<and> getValue (example_env [] (Inr [])) (endpointSecretKey example_module) = Inr ''whsec_1''
   \<and> fst (handler (example_env [] (Inr [])) example_module
          \<lparr>headers = [], body = Some ''{}''\<rparr>)
       = \<lparr>statusCode = 500, body = ''Error: Stripe signature is missing''\<rparr>
   \<and> statusCode (fst (handler (example_env [] (Inr [])) example_module
          \<lparr>headers = [], body = Some ''{}''\<rparr>)) = 500
   \<and> statusCode (fst (handler (example_env [] (Inr [])) example_module
          \<lparr>headers = [(''Stripe-Signature'', ''t=1,v1=good'')], body = None\<rparr>)) = 500
   \<and> published (example_env [] (Inr []))
        (snd (handler (example_env [] (Inr [])) example_module
          \<lparr>headers = [(''Stripe-Signature'', ''t=1,v1=good'')], body = None\<rparr>)) = []
   \<and> getValue (example_env [] (Inr []))
        (apiSecretKey (example_module\<lparr>apiSecretKey :=
           SecretKey (Str ''unknown-locator'') \<lparr>maxAttempts = 5\<rparr>\<rparr>))
       = Inl (Error ''ResourceNotFoundException'' None ''Secret not found.'')
   \<and> statusCode (fst (handler (example_env [] (Inr []))
          (example_module\<lparr>apiSecretKey :=
             SecretKey (Str ''unknown-locator'') \<lparr>maxAttempts = 5\<rparr>\<rparr>)
          \<lparr>headers = [], body = None\<rparr>)) = 500"
proof -
  let ?e = "example_env [] (Inr [])"
  let ?m = "example_module\<lparr>apiSecretKey :=
             SecretKey (Str ''unknown-locator'') \<lparr>maxAttempts = 5\<rparr>\<rparr>"
  have k1: "getValue ?e (apiSecretKey example_module) = Inr ''sk_test_1''"
    and k2: "getValue ?e (endpointSecretKey example_module) = Inr ''whsec_1''"
    and k3: "getValue ?e (endpointSecretKey ?m) = Inr ''whsec_1''"
    and k4: "getValue ?e (apiSecretKey ?m)
       = Inl (Error ''ResourceNotFoundException'' None ''Secret not found.'')"
    by (simp_all add: example_env_def example_module_def)
  have h1: "\<forall>err. getValue ?e (apiSecretKey example_module) = Inl err
             \<longrightarrow> etype err \<noteq> Some ''StripeSignatureVerificationError''"
    and h2: "\<forall>err. getValue ?e (endpointSecretKey example_module) = Inl err
             \<longrightarrow> etype err \<noteq> Some ''StripeSignatureVerificationError''"
    and h3: "\<forall>err. getValue ?e (apiSecretKey ?m) = Inl err
             \<longrightarrow> etype err \<noteq> Some ''StripeSignatureVerificationError''"
    and h4: "\<forall>err. getValue ?e (endpointSecretKey ?m) = Inl err
             \<longrightarrow> etype err \<noteq> Some ''StripeSignatureVerificationError''"
    using k1 k2 k3 k4 by auto
  have a: "statusCode (fst (handler ?e example_module \<lparr>headers = [], body = Some ''{}''\<rparr>)) = 500"
    using handler_missing_signature_or_body
      [OF h1 h2, of "\<lparr>headers = [], body = Some ''{}''\<rparr>"]
    by simp
  have b: "statusCode (fst (handler ?e example_module
          \<lparr>headers = [(''Stripe-Signature'', ''t=1,v1=good'')], body = None\<rparr>)) = 500
     \<and> published ?e (snd (handler ?e example_module
          \<lparr>headers = [(''Stripe-Signature'', ''t=1,v1=good'')], body = None\<rparr>)) = []"
    using handler_missing_signature_or_body
      [OF h1 h2, of "\<lparr>headers = [(''Stripe-Signature'', ''t=1,v1=good'')], body = None\<rparr>"]
    by simp
  have c: "statusCode (fst (handler ?e ?m \<lparr>headers = [], body = None\<rparr>)) = 500"
    using handler_missing_signature_or_body [OF h3 h4, of "\<lparr>headers = [], body = None\<rparr>"]
    by simp
  have d: "fst (handler ?e example_module \<lparr>headers = [], body = Some ''{}''\<rparr>)
       = \<lparr>statusCode = 500, body = ''Error: Stripe signature is missing''\<rparr>"
    by (simp add: handler_def handler_try_def example_env_def example_module_def
        new_Error_def Let_def)
  from k1 k2 k4 a b c d show ?thesis by simp
qed

section \<open>Retry configuration\<close>

text \<open>
  Every secret resolution, secret write and Stripe request of the three operations, and
  both secret keys of the producer module, carry the retry number 5. The handlers
  themselves repeat no call.
\<close>

lemma handleCreate_calls_budget:
  "c \<in> set (snd (handleCreate e event)) \<Longrightarrow> retry_budget c = Some 5"
  by (auto simp: handleCreate_def Let_def split: sum.splits if_splits)

lemma handleUpdate_calls_budget:
  "c \<in> set (snd (handleUpdate e event)) \<Longrightarrow> retry_budget c = Some 5"
  by (auto simp: handleUpdate_snd split: sum.splits)

lemma handleDelete_calls_budget:
  "c \<in> set (snd (handleDelete e event)) \<Longrightarrow> retry_budget c = Some 5"
  by (auto simp: handleDelete_snd split: sum.splits)

lemma load_producer_budget:
  "load_producer e = Inr m \<Longrightarrow>
     retry_budget (GetValue (endpointSecretKey m)) = Some 5
   \<and> retry_budget (GetValue (apiSecretKey m)) = Some 5"
  by (auto simp: load_producer_def split: sum.splits)

lemma example_load_producer: "load_producer (example_env [] (Inr [])) = Inr example_module"
  by (simp add: load_producer_def example_env_def example_module_def)

end
